theory Spec2Isabelle
  imports Main
begin

section \<open>Data model\<close>

text \<open>
  The service and the processor are asynchronous TypeScript methods. A rejected promise
  (a \<^verbatim>\<open>throw\<close>) is the left summand of the result, a resolved one the right summand.
  \<^verbatim>\<open>InternalServerErrorException\<close> and \<^verbatim>\<open>Error\<close> are the two exceptions the
  repository constructs itself, \<^verbatim>\<open>SyntaxError\<close> is what \<^verbatim>\<open>JSON.parse\<close> throws, and
  \<open>Thrown\<close> carries whatever a collaborator (cache driver, queue, handler) throws.
\<close>

datatype 'x js_error =
    InternalServerErrorException string
  | Error string
  | SyntaxError string
  | Thrown 'x

text \<open>\<^verbatim>\<open>interface CacheJobPayload<P> { jobType: string; params: P; cacheKey: string; }\<close>\<close>

record 'p CacheJobPayload =
  jobType :: string
  params :: 'p
  cacheKey :: string

text \<open>The options object given to \<^verbatim>\<open>cacheQueue.add\<close>:
  \<^verbatim>\<open>{ jobId: cacheKey, removeOnComplete: true, timeout: jobTTL }\<close>.\<close>

record 'n JobOptions =
  jobId :: string
  removeOnComplete :: bool
  timeout :: 'n

text \<open>
  Every call to a collaborator and every logger call is recorded, in order, so that
  "is never invoked" and "is logged" are statements about the recorded calls.
\<close>

datatype ('x, 'p, 'n, 'j) event =
    CacheGet string
  | CacheSet string string 'n
  | CacheDel string
  | QueueGetJob string
  | QueueAdd string "'p CacheJobPayload" "'n JobOptions"
  | JobFinished 'j
  | HandlerCall string 'p
  | LoggerLog string
  | LoggerError string "'x js_error"

text \<open>
  The state threaded through a call: \<open>world\<close> is the state of the collaborators (the
  cache store, the queue and its jobs), \<open>calls\<close> the calls made so far.
\<close>

record ('s, 'x, 'p, 'n, 'j) sys =
  world :: 's
  calls :: "('x, 'p, 'n, 'j) event list"

text \<open>
  The collaborators. \<^verbatim>\<open>ICacheDriver\<close> (\<^verbatim>\<open>get\<close>, \<^verbatim>\<open>set\<close>, \<^verbatim>\<open>del\<close>) is an interface
  of the repository implemented by the consumer; the Bull \<^verbatim>\<open>Queue\<close> (\<^verbatim>\<open>getJob\<close>,
  \<^verbatim>\<open>add\<close>) and \<^verbatim>\<open>Job\<close> (\<^verbatim>\<open>finished\<close>) are library objects. Each is a function on the
  collaborators' state that either throws or returns. \<^verbatim>\<open>get\<close> returns
  \<^verbatim>\<open>string | null\<close> and \<^verbatim>\<open>getJob\<close> returns \<^verbatim>\<open>Job | null\<close>: \<open>None\<close> is \<^verbatim>\<open>null\<close>.

  \<open>json_decode\<close> and \<open>json_stringify\<close> stand for the runtime's \<^verbatim>\<open>JSON.parse\<close> (on a
  non-empty text) and \<^verbatim>\<open>JSON.stringify\<close> at the result type \<^verbatim>\<open>T\<close>; both can throw.
  \<open>number_text\<close> is the conversion of a number inside a template literal.
\<close>

record ('s, 'x, 'v, 'p, 'n, 'j) deps =
  cache_get :: "string \<Rightarrow> 's \<Rightarrow> ('x js_error + string option) \<times> 's"
  cache_set :: "string \<Rightarrow> string \<Rightarrow> 'n \<Rightarrow> 's \<Rightarrow> ('x js_error + unit) \<times> 's"
  cache_del :: "string \<Rightarrow> 's \<Rightarrow> ('x js_error + unit) \<times> 's"
  queue_getJob :: "string \<Rightarrow> 's \<Rightarrow> ('x js_error + 'j option) \<times> 's"
  queue_add :: "string \<Rightarrow> 'p CacheJobPayload \<Rightarrow> 'n JobOptions \<Rightarrow> 's \<Rightarrow> ('x js_error + 'j) \<times> 's"
  job_finished :: "'j \<Rightarrow> 's \<Rightarrow> ('x js_error + 'v) \<times> 's"
  json_decode :: "string \<Rightarrow> 'x js_error + 'v"
  json_stringify :: "'v \<Rightarrow> 'x js_error + string"
  number_text :: "'n \<Rightarrow> string"

section \<open>Primitive steps\<close>

text \<open>An awaited call to a collaborator: it is recorded, and it changes the collaborators' state.\<close>

definition invoke ::
  "('x, 'p, 'n, 'j) event \<Rightarrow> ('s \<Rightarrow> 'r \<times> 's) \<Rightarrow> ('s, 'x, 'p, 'n, 'j) sys
     \<Rightarrow> 'r \<times> ('s, 'x, 'p, 'n, 'j) sys" where
  "invoke ev f st =
     (case f (world st) of (r, w) \<Rightarrow> (r, \<lparr>world = w, calls = calls st @ [ev]\<rparr>))"

text \<open>A logger call: it is recorded and changes nothing else.\<close>

definition logged ::
  "('x, 'p, 'n, 'j) event \<Rightarrow> ('s, 'x, 'p, 'n, 'j) sys \<Rightarrow> ('s, 'x, 'p, 'n, 'j) sys" where
  "logged ev st = \<lparr>world = world st, calls = calls st @ [ev]\<rparr>"

text \<open>
  \<^verbatim>\<open>JSON.parse\<close>: the empty text is not a JSON text, so it throws a \<^verbatim>\<open>SyntaxError\<close>
  there; on any other text the decoder decides.
\<close>

definition JSON_parse :: "('s, 'x, 'v, 'p, 'n, 'j) deps \<Rightarrow> string \<Rightarrow> 'x js_error + 'v" where
  "JSON_parse env text =
     (if text = [] then Inl (SyntaxError ''Unexpected end of JSON input'')
      else json_decode env text)"

text \<open>
  Truthiness of a \<^verbatim>\<open>string | null\<close> value, as tested by \<^verbatim>\<open>if (cached)\<close>: \<^verbatim>\<open>null\<close> and
  the empty string are falsy, every other string is truthy.
\<close>

fun truthy :: "string option \<Rightarrow> bool" where
  "truthy None = False"
| "truthy (Some text) = (text \<noteq> [])"

section \<open>The handler registry\<close>

text \<open>
  \<^verbatim>\<open>private static jobHandlers: Map<string, CacheJobHandler<any, any>> = new Map()\<close>.
  A handler is an asynchronous function of the parameters: it may throw and may change
  the collaborators' state.
\<close>

type_synonym ('s, 'x, 'v, 'p) CacheJobHandler = "'p \<Rightarrow> 's \<Rightarrow> ('x js_error + 'v) \<times> 's"

type_synonym ('s, 'x, 'v, 'p) jobHandlers = "string \<rightharpoonup> ('s, 'x, 'v, 'p) CacheJobHandler"

definition registerHandler ::
  "string \<Rightarrow> ('s, 'x, 'v, 'p) CacheJobHandler \<Rightarrow> ('s, 'x, 'v, 'p) jobHandlers
     \<Rightarrow> ('s, 'x, 'v, 'p) jobHandlers" where
  "registerHandler jt handler reg = reg(jt \<mapsto> handler)"

definition getHandler ::
  "('s, 'x, 'v, 'p) jobHandlers \<Rightarrow> string \<Rightarrow> ('s, 'x, 'v, 'p) CacheJobHandler option" where
  "getHandler reg jt = reg jt"

text \<open>The registry after a sequence of \<^verbatim>\<open>registerHandler\<close> calls, starting from the new map.\<close>

fun registered ::
  "(string \<times> ('s, 'x, 'v, 'p) CacheJobHandler) list \<Rightarrow> ('s, 'x, 'v, 'p) jobHandlers" where
  "registered [] = Map.empty"
| "registered ((jt, handler) # earlier) = registerHandler jt handler (registered earlier)"

section \<open>The processor\<close>

text \<open>
  \<^verbatim>\<open>CacheFirstProcessor.handleCacheFirstJob(job)\<close>, on \<^verbatim>\<open>job.data\<close>: without a handler
  for the job type it throws; otherwise it awaits the handler, logs, and returns the
  result or rethrows the handler's error.
\<close>

definition handleCacheFirstJob ::
  "('s, 'x, 'v, 'p) jobHandlers \<Rightarrow> 'p CacheJobPayload \<Rightarrow> ('s, 'x, 'p, 'n, 'j) sys
     \<Rightarrow> ('x js_error + 'v) \<times> ('s, 'x, 'p, 'n, 'j) sys" where
  "handleCacheFirstJob reg job_data st =
     (case getHandler reg (jobType job_data) of
        None \<Rightarrow>
          (Inl (Error (''No handler registered for job type: '' @ jobType job_data)), st)
      | Some handler \<Rightarrow>
          (case invoke (HandlerCall (jobType job_data) (params job_data))
                  (handler (params job_data)) st of
             (Inr result, st1) \<Rightarrow>
               (Inr result,
                logged (LoggerLog (''Job for key '' @ cacheKey job_data
                                     @ '' executed successfully.'')) st1)
           | (Inl err, st1) \<Rightarrow>
               (Inl err,
                logged (LoggerError (''Error executing job for key '' @ cacheKey job_data) err)
                  st1)))"

section \<open>The service\<close>

text \<open>
  \<^verbatim>\<open>cacheFirst\<close>, first part ("Check cache"): \<^verbatim>\<open>get\<close> is awaited outside any
  \<^verbatim>\<open>try\<close>, so its error is the call's error. A truthy value is parsed; the parsed value
  is returned (\<open>Inr (Some v)\<close>), a parse error is logged and control falls through
  (\<open>Inr None\<close>), as it does for a falsy value.
\<close>

definition check_cache ::
  "('s, 'x, 'v, 'p, 'n, 'j) deps \<Rightarrow> string \<Rightarrow> ('s, 'x, 'p, 'n, 'j) sys
     \<Rightarrow> ('x js_error + 'v option) \<times> ('s, 'x, 'p, 'n, 'j) sys" where
  "check_cache env key st =
     (case invoke (CacheGet key) (cache_get env key) st of
        (Inl err, st1) \<Rightarrow> (Inl err, st1)
      | (Inr cached, st1) \<Rightarrow>
          (if truthy cached then
             (case JSON_parse env (the cached) of
                Inr v \<Rightarrow> (Inr (Some v), st1)
              | Inl err \<Rightarrow>
                  (Inr None, logged (LoggerError (''Error parsing cache for key '' @ key) err) st1))
           else (Inr None, st1)))"

text \<open>
  Second part ("Use cacheKey as jobId for uniqueness"): look the job up; if there is
  none, add one; if adding throws, look it up again, and throw if there is still none.
  Neither \<^verbatim>\<open>getJob\<close> call is inside a \<^verbatim>\<open>try\<close>.
\<close>

definition obtain_job ::
  "('s, 'x, 'v, 'p, 'n, 'j) deps \<Rightarrow> string \<Rightarrow> 'n \<Rightarrow> string \<Rightarrow> 'p \<Rightarrow> ('s, 'x, 'p, 'n, 'j) sys
     \<Rightarrow> ('x js_error + 'j) \<times> ('s, 'x, 'p, 'n, 'j) sys" where
  "obtain_job env key jobTTL jt ps st =
     (let payload = \<lparr>jobType = jt, params = ps, cacheKey = key\<rparr> in
      case invoke (QueueGetJob key) (queue_getJob env key) st of
        (Inl err, st1) \<Rightarrow> (Inl err, st1)
      | (Inr (Some bullJob), st1) \<Rightarrow> (Inr bullJob, st1)
      | (Inr None, st1) \<Rightarrow>
          (let opts = \<lparr>jobId = key, removeOnComplete = True, timeout = jobTTL\<rparr> in
           case invoke (QueueAdd ''cacheFirstJob'' payload opts)
                  (queue_add env ''cacheFirstJob'' payload opts) st1 of
             (Inr bullJob, st2) \<Rightarrow> (Inr bullJob, st2)
           | (Inl error, st2) \<Rightarrow>
               (case invoke (QueueGetJob key) (queue_getJob env key) st2 of
                  (Inl err, st3) \<Rightarrow> (Inl err, st3)
                | (Inr (Some bullJob), st3) \<Rightarrow> (Inr bullJob, st3)
                | (Inr None, st3) \<Rightarrow>
                    (Inl (InternalServerErrorException ''Failed to schedule cache job''), st3))))"

text \<open>
  Third part ("Wait for job completion", "Cache the result"): any error of
  \<^verbatim>\<open>finished()\<close> is logged and replaced by the "timed out" exception. Otherwise the
  result is serialized and written; an error of either is logged and dropped, and the
  result is returned.
\<close>

definition wait_and_cache ::
  "('s, 'x, 'v, 'p, 'n, 'j) deps \<Rightarrow> string \<Rightarrow> 'n \<Rightarrow> 'n \<Rightarrow> 'j \<Rightarrow> ('s, 'x, 'p, 'n, 'j) sys
     \<Rightarrow> ('x js_error + 'v) \<times> ('s, 'x, 'p, 'n, 'j) sys" where
  "wait_and_cache env key redisTTL jobTTL bullJob st =
     (case invoke (JobFinished bullJob) (job_finished env bullJob) st of
        (Inl err, st1) \<Rightarrow>
          (Inl (InternalServerErrorException
                  (''Job timed out after '' @ number_text env jobTTL @ '' ms'')),
           logged (LoggerError (''Job for key '' @ key @ '' failed or timed out'') err) st1)
      | (Inr result, st1) \<Rightarrow>
          (case json_stringify env result of
             Inl err \<Rightarrow>
               (Inr result, logged (LoggerError (''Error setting cache for key '' @ key) err) st1)
           | Inr text \<Rightarrow>
               (case invoke (CacheSet key text redisTTL) (cache_set env key text redisTTL) st1 of
                  (Inl err, st2) \<Rightarrow>
                    (Inr result,
                     logged (LoggerError (''Error setting cache for key '' @ key) err) st2)
                | (Inr u, st2) \<Rightarrow> (Inr result, st2))))"

text \<open>Everything after the cache check: what a call does on a miss.\<close>

definition on_miss ::
  "('s, 'x, 'v, 'p, 'n, 'j) deps \<Rightarrow> string \<Rightarrow> 'n \<Rightarrow> 'n \<Rightarrow> string \<Rightarrow> 'p
     \<Rightarrow> ('s, 'x, 'p, 'n, 'j) sys \<Rightarrow> ('x js_error + 'v) \<times> ('s, 'x, 'p, 'n, 'j) sys" where
  "on_miss env key redisTTL jobTTL jt ps st =
     (case obtain_job env key jobTTL jt ps st of
        (Inl err, st1) \<Rightarrow> (Inl err, st1)
      | (Inr bullJob, st1) \<Rightarrow> wait_and_cache env key redisTTL jobTTL bullJob st1)"

text \<open>\<^verbatim>\<open>cacheFirst(cacheKey, redisTTL, jobTTL, jobType, params)\<close>.\<close>

definition cacheFirst ::
  "('s, 'x, 'v, 'p, 'n, 'j) deps \<Rightarrow> string \<Rightarrow> 'n \<Rightarrow> 'n \<Rightarrow> string \<Rightarrow> 'p
     \<Rightarrow> ('s, 'x, 'p, 'n, 'j) sys \<Rightarrow> ('x js_error + 'v) \<times> ('s, 'x, 'p, 'n, 'j) sys" where
  "cacheFirst env key redisTTL jobTTL jt ps st =
     (case check_cache env key st of
        (Inl err, st1) \<Rightarrow> (Inl err, st1)
      | (Inr (Some v), st1) \<Rightarrow> (Inr v, st1)
      | (Inr None, st1) \<Rightarrow> on_miss env key redisTTL jobTTL jt ps st1)"

text \<open>
  \<^verbatim>\<open>warmCacheForKey\<close>: \<^verbatim>\<open>del\<close> is awaited outside any \<^verbatim>\<open>try\<close>, then \<^verbatim>\<open>cacheFirst\<close>
  runs with the same arguments.
\<close>

definition warmCacheForKey ::
  "('s, 'x, 'v, 'p, 'n, 'j) deps \<Rightarrow> string \<Rightarrow> 'n \<Rightarrow> 'n \<Rightarrow> string \<Rightarrow> 'p
     \<Rightarrow> ('s, 'x, 'p, 'n, 'j) sys \<Rightarrow> ('x js_error + 'v) \<times> ('s, 'x, 'p, 'n, 'j) sys" where
  "warmCacheForKey env key redisTTL jobTTL jt ps st =
     (case invoke (CacheDel key) (cache_del env key) st of
        (Inl err, st1) \<Rightarrow> (Inl err, st1)
      | (Inr u, st1) \<Rightarrow> cacheFirst env key redisTTL jobTTL jt ps st1)"

section \<open>Observing the recorded calls\<close>

text \<open>The calls made between an earlier and a later state.\<close>

definition made_during ::
  "('s, 'x, 'p, 'n, 'j) sys \<Rightarrow> ('s, 'x, 'p, 'n, 'j) sys \<Rightarrow> ('x, 'p, 'n, 'j) event list" where
  "made_during st st' = drop (length (calls st)) (calls st')"

fun is_CacheSet :: "('x, 'p, 'n, 'j) event \<Rightarrow> bool" where
  "is_CacheSet (CacheSet key text ttl) = True"
| "is_CacheSet ev = False"

text \<open>The same state with earlier calls put in front of the recorded ones.\<close>

definition after_calls ::
  "('x, 'p, 'n, 'j) event list \<Rightarrow> ('s, 'x, 'p, 'n, 'j) sys \<Rightarrow> ('s, 'x, 'p, 'n, 'j) sys" where
  "after_calls earlier st = \<lparr>world = world st, calls = earlier @ calls st\<rparr>"

section \<open>A concrete deployment\<close>

text \<open>
  An in-memory cache store and queue, with results that are JSON literals, on which the
  service and the processor can be run. The store is a list of entries, newest first.
  The queue keeps the payload of each job under its job id, a job handle is its payload,
  and \<^verbatim>\<open>finished()\<close> runs the processor on the job, removes the job
  (\<^verbatim>\<open>removeOnComplete\<close>) and settles with the processor's outcome.
\<close>

datatype jvalue = JNull | JTrue | JFalse

definition decode_literal :: "string \<Rightarrow> 'x js_error + jvalue" where
  "decode_literal text =
     (if text = ''null'' then Inr JNull
      else if text = ''true'' then Inr JTrue
      else if text = ''false'' then Inr JFalse
      else Inl (SyntaxError ''Unexpected token''))"

fun literal_text :: "jvalue \<Rightarrow> string" where
  "literal_text JNull = ''null''"
| "literal_text JTrue = ''true''"
| "literal_text JFalse = ''false''"

fun decimal :: "nat \<Rightarrow> string" where
  "decimal n =
     (if n < 10 then [''0123456789'' ! n]
      else decimal (n div 10) @ [''0123456789'' ! (n mod 10)])"

declare decimal.simps [simp del]

record memory =
  entries :: "(string \<times> string) list"
  jobs :: "(string \<times> nat CacheJobPayload) list"

type_synonym memory_sys = "(memory, string, nat, nat, nat CacheJobPayload) sys"

definition memory_finished ::
  "(memory, string, jvalue, nat) jobHandlers \<Rightarrow> nat CacheJobPayload \<Rightarrow> memory
     \<Rightarrow> (string js_error + jvalue) \<times> memory" where
  "memory_finished reg job w =
     (case handleCacheFirstJob reg job (\<lparr>world = w, calls = []\<rparr> :: memory_sys) of
        (outcome, st) \<Rightarrow>
          (outcome,
           (world st)\<lparr>jobs := filter (\<lambda>entry. fst entry \<noteq> cacheKey job) (jobs (world st))\<rparr>))"

definition memory_env ::
  "(memory, string, jvalue, nat) jobHandlers
     \<Rightarrow> (memory, string, jvalue, nat, nat, nat CacheJobPayload) deps" where
  "memory_env reg =
     \<lparr>cache_get = (\<lambda>key w. (Inr (map_of (entries w) key), w)),
      cache_set = (\<lambda>key text ttl w. (Inr (), w\<lparr>entries := (key, text) # entries w\<rparr>)),
      cache_del = (\<lambda>key w.
         (Inr (), w\<lparr>entries := filter (\<lambda>entry. fst entry \<noteq> key) (entries w)\<rparr>)),
      queue_getJob = (\<lambda>key w. (Inr (map_of (jobs w) key), w)),
      queue_add = (\<lambda>name payload opts w.
         (Inr payload, w\<lparr>jobs := (jobId opts, payload) # jobs w\<rparr>)),
      job_finished = memory_finished reg,
      json_decode = decode_literal,
      json_stringify = (\<lambda>v. Inr (literal_text v)),
      number_text = decimal\<rparr>"

text \<open>A handler that answers \<^verbatim>\<open>true\<close>, and the registry holding it as \<^verbatim>\<open>fetchUser\<close>.\<close>

definition fetchUser :: "(memory, string, jvalue, nat) CacheJobHandler" where
  "fetchUser ps w = (Inr JTrue, w)"

definition app_handlers :: "(memory, string, jvalue, nat) jobHandlers" where
  "app_handlers = registered [(''fetchUser'', fetchUser)]"

text \<open>A state with no call made yet, holding the given cache entries and no job.\<close>

definition fresh :: "(string \<times> string) list \<Rightarrow> memory_sys" where
  "fresh cached = \<lparr>world = \<lparr>entries = cached, jobs = []\<rparr>, calls = []\<rparr>"

text \<open>The empty registry, and a handler whose upstream call fails.\<close>

definition no_handlers :: "(memory, string, jvalue, nat) jobHandlers" where
  "no_handlers = registered []"

definition upstream_down :: "(memory, string, jvalue, nat) CacheJobHandler" where
  "upstream_down ps w = (Inl (Thrown ''upstream 503''), w)"

text \<open>The request of the specification's example, and the job it schedules.\<close>

definition user42 :: "nat CacheJobPayload" where
  "user42 = \<lparr>jobType = ''fetchUser'', params = 42, cacheKey = ''user:42''\<rparr>"

definition user42_opts :: "nat JobOptions" where
  "user42_opts = \<lparr>jobId = ''user:42'', removeOnComplete = True, timeout = 5000\<rparr>"

text \<open>
  Deployments in which one collaborator misbehaves: a cache store that cannot be read,
  written or deleted from, a queue whose \<^verbatim>\<open>add\<close> throws because another caller has
  just added the job (which is then there), and a queue whose \<^verbatim>\<open>add\<close> throws and adds
  nothing.
\<close>

definition cache_unreadable ::
  "(memory, string, jvalue, nat) jobHandlers
     \<Rightarrow> (memory, string, jvalue, nat, nat, nat CacheJobPayload) deps" where
  "cache_unreadable reg =
     (memory_env reg)\<lparr>cache_get := (\<lambda>key w. (Inl (Thrown ''ECONNRESET''), w))\<rparr>"

definition cache_unwritable ::
  "(memory, string, jvalue, nat) jobHandlers
     \<Rightarrow> (memory, string, jvalue, nat, nat, nat CacheJobPayload) deps" where
  "cache_unwritable reg =
     (memory_env reg)\<lparr>cache_set := (\<lambda>key text ttl w. (Inl (Thrown ''READONLY''), w))\<rparr>"

definition cache_undeletable ::
  "(memory, string, jvalue, nat) jobHandlers
     \<Rightarrow> (memory, string, jvalue, nat, nat, nat CacheJobPayload) deps" where
  "cache_undeletable reg =
     (memory_env reg)\<lparr>cache_del := (\<lambda>key w. (Inl (Thrown ''ECONNRESET''), w))\<rparr>"

definition queue_raced ::
  "(memory, string, jvalue, nat) jobHandlers
     \<Rightarrow> (memory, string, jvalue, nat, nat, nat CacheJobPayload) deps" where
  "queue_raced reg =
     (memory_env reg)\<lparr>queue_add := (\<lambda>name payload opts w.
        (Inl (Thrown ''duplicate job id''), w\<lparr>jobs := (jobId opts, payload) # jobs w\<rparr>))\<rparr>"

definition queue_closed ::
  "(memory, string, jvalue, nat) jobHandlers
     \<Rightarrow> (memory, string, jvalue, nat, nat, nat CacheJobPayload) deps" where
  "queue_closed reg =
     (memory_env reg)\<lparr>queue_add := (\<lambda>name payload opts w. (Inl (Thrown ''queue closed''), w))\<rparr>"

text \<open>A registry whose \<^verbatim>\<open>fetchUser\<close> handler fails.\<close>

definition failing_handlers :: "(memory, string, jvalue, nat) jobHandlers" where
  "failing_handlers = registered [(''fetchUser'', upstream_down)]"

text \<open>
  The states the example request passes through on an empty store: after the cache has
  been read, and after the job has been added.
\<close>

definition looked_up :: memory_sys where
  "looked_up = \<lparr>world = \<lparr>entries = [], jobs = []\<rparr>, calls = [CacheGet ''user:42'']\<rparr>"

definition scheduled :: memory_sys where
  "scheduled =
     \<lparr>world = \<lparr>entries = [], jobs = [(''user:42'', user42)]\<rparr>,
        calls = [CacheGet ''user:42'', QueueGetJob ''user:42'',
                 QueueAdd ''cacheFirstJob'' user42 user42_opts]\<rparr>"

text \<open>
  A state in which the queue already holds the example job, and a deployment whose queue
  connection drops during \<^verbatim>\<open>add\<close>: the state of its collaborators is whether the
  connection is up, \<^verbatim>\<open>add\<close> throws and leaves it down, and \<^verbatim>\<open>getJob\<close> throws once
  it is down.
\<close>

definition holding :: memory_sys where
  "holding = \<lparr>world = \<lparr>entries = [], jobs = [(''user:42'', user42)]\<rparr>, calls = []\<rparr>"

definition queue_dropped :: "(bool, string, jvalue, nat, nat, nat CacheJobPayload) deps" where
  "queue_dropped =
     \<lparr>cache_get = (\<lambda>key up. (Inr None, up)),
      cache_set = (\<lambda>key text ttl up. (Inr (), up)),
      cache_del = (\<lambda>key up. (Inr (), up)),
      queue_getJob = (\<lambda>key up.
         if up then (Inr None, up) else (Inl (Thrown ''Connection is closed.''), up)),
      queue_add = (\<lambda>name payload opts up. (Inl (Thrown ''Connection is closed.''), False)),
      job_finished = (\<lambda>job up. (Inl (Thrown ''Connection is closed.''), up)),
      json_decode = decode_literal,
      json_stringify = (\<lambda>v. Inr (literal_text v)),
      number_text = decimal\<rparr>"

definition connected :: "(bool, string, nat, nat, nat CacheJobPayload) sys" where
  "connected = \<lparr>world = True, calls = []\<rparr>"

section \<open>Properties of the steps\<close>

subsection \<open>Unfolding\<close>

lemmas service_defs =
  cacheFirst_def check_cache_def on_miss_def obtain_job_def wait_and_cache_def
  warmCacheForKey_def invoke_def logged_def JSON_parse_def Let_def

lemmas memory_defs =
  memory_env_def memory_finished_def handleCacheFirstJob_def getHandler_def
  registerHandler_def decode_literal_def fresh_def user42_def user42_opts_def
  app_handlers_def no_handlers_def fetchUser_def upstream_down_def failing_handlers_def
  looked_up_def scheduled_def

lemma invoke_eq:
  "f (world st) = (r, w) \<Longrightarrow> invoke ev f st = (r, \<lparr>world = w, calls = calls st @ [ev]\<rparr>)"
  by (simp add: invoke_def)

subsection \<open>Earlier calls do not influence a step\<close>

text \<open>
  No step reads the recorded calls: run after some earlier calls, a step gives the same
  outcome and the same collaborators' state, and records the same calls behind the
  earlier ones.
\<close>

lemma invoke_after_calls:
  "invoke ev f (after_calls c st) = apsnd (after_calls c) (invoke ev f st)"
  by (simp add: invoke_def after_calls_def split: prod.splits)

lemma logged_after_calls:
  "logged ev (after_calls c st) = after_calls c (logged ev st)"
  by (simp add: logged_def after_calls_def)

lemma check_cache_after_calls:
  "check_cache env key (after_calls c st) = apsnd (after_calls c) (check_cache env key st)"
  by (simp add: check_cache_def invoke_after_calls logged_after_calls
           split: prod.splits sum.splits option.splits)

lemma obtain_job_after_calls:
  "obtain_job env key jobTTL jt ps (after_calls c st)
     = apsnd (after_calls c) (obtain_job env key jobTTL jt ps st)"
  by (simp add: obtain_job_def invoke_after_calls logged_after_calls Let_def
           split: prod.splits sum.splits option.splits)

lemma wait_and_cache_after_calls:
  "wait_and_cache env key redisTTL jobTTL bullJob (after_calls c st)
     = apsnd (after_calls c) (wait_and_cache env key redisTTL jobTTL bullJob st)"
  by (simp add: wait_and_cache_def invoke_after_calls logged_after_calls
           split: prod.splits sum.splits option.splits)

lemma on_miss_after_calls:
  "on_miss env key redisTTL jobTTL jt ps (after_calls c st)
     = apsnd (after_calls c) (on_miss env key redisTTL jobTTL jt ps st)"
  by (simp add: on_miss_def obtain_job_after_calls wait_and_cache_after_calls
           split: prod.splits sum.splits option.splits)

lemma sys_after_calls: "after_calls (calls st) (st\<lparr>calls := []\<rparr>) = st"
  by (cases st) (simp add: after_calls_def)

lemma after_calls_simps [simp]:
  "world (after_calls c st) = world st" "calls (after_calls c st) = c @ calls st"
  by (simp_all add: after_calls_def)

lemma same_world_reset:
  "world st2 = world st
     \<Longrightarrow> st2\<lparr>calls := []\<rparr> = (st :: ('s, 'x, 'p, 'n, 'j) sys)\<lparr>calls := []\<rparr>"
  by (rule sys.equality) simp_all

lemma on_miss_from_reset:
  "on_miss env key redisTTL jobTTL jt ps st
     = apsnd (after_calls (calls st))
         (on_miss env key redisTTL jobTTL jt ps (st\<lparr>calls := []\<rparr>))"
  using on_miss_after_calls [of env key redisTTL jobTTL jt ps "calls st" "st\<lparr>calls := []\<rparr>"]
  by (simp add: sys_after_calls)

lemma on_miss_results:
  assumes "world st2 = world st"
  shows "fst (on_miss env key redisTTL jobTTL jt ps st2)
           = fst (on_miss env key redisTTL jobTTL jt ps st)
         \<and> world (snd (on_miss env key redisTTL jobTTL jt ps st2))
           = world (snd (on_miss env key redisTTL jobTTL jt ps st))"
  using on_miss_from_reset [of env key redisTTL jobTTL jt ps st]
        on_miss_from_reset [of env key redisTTL jobTTL jt ps st2]
        same_world_reset [OF assms]
  by simp

subsection \<open>What each step calls\<close>

text \<open>The cache check and the scheduling of the job never write to the cache.\<close>

lemma check_cache_quiet:
  "list_all (\<lambda>ev. \<not> is_CacheSet ev) (calls (snd (check_cache env key (st\<lparr>calls := []\<rparr>))))"
  by (simp add: check_cache_def invoke_def logged_def split: prod.splits sum.splits option.splits)

lemma obtain_job_quiet:
  "list_all (\<lambda>ev. \<not> is_CacheSet ev)
     (calls (snd (obtain_job env key jobTTL jt ps (st\<lparr>calls := []\<rparr>))))"
  by (simp add: obtain_job_def invoke_def logged_def Let_def
           split: prod.splits sum.splits option.splits)

lemma check_cache_calls:
  assumes "check_cache env key st = (r, st1)"
  shows "\<exists>evs. calls st1 = calls st @ evs \<and> list_all (\<lambda>ev. \<not> is_CacheSet ev) evs"
proof -
  let ?s0 = "st\<lparr>calls := []\<rparr>"
  have "check_cache env key (after_calls (calls st) ?s0)
          = apsnd (after_calls (calls st)) (check_cache env key ?s0)"
    by (rule check_cache_after_calls)
  with assms have "st1 = after_calls (calls st) (snd (check_cache env key ?s0))"
    by (simp add: sys_after_calls apsnd_def map_prod_def split: prod.splits)
  then have "calls st1 = calls st @ calls (snd (check_cache env key ?s0))"
    by simp
  then show ?thesis
    using check_cache_quiet [of env key st] by blast
qed

lemma obtain_job_calls:
  assumes "obtain_job env key jobTTL jt ps st = (r, st1)"
  shows "\<exists>evs. calls st1 = calls st @ evs \<and> list_all (\<lambda>ev. \<not> is_CacheSet ev) evs"
proof -
  let ?s0 = "st\<lparr>calls := []\<rparr>"
  have "obtain_job env key jobTTL jt ps (after_calls (calls st) ?s0)
          = apsnd (after_calls (calls st)) (obtain_job env key jobTTL jt ps ?s0)"
    by (rule obtain_job_after_calls)
  with assms have "st1 = after_calls (calls st) (snd (obtain_job env key jobTTL jt ps ?s0))"
    by (simp add: sys_after_calls apsnd_def map_prod_def split: prod.splits)
  then have "calls st1 = calls st @ calls (snd (obtain_job env key jobTTL jt ps ?s0))"
    by simp
  then show ?thesis
    using obtain_job_quiet [of env key jobTTL jt ps st] by blast
qed

text \<open>Everything after the cache check starts with a job lookup.\<close>

lemma obtain_job_first_call:
  "\<exists>rest. calls (snd (obtain_job env key jobTTL jt ps st)) = calls st @ QueueGetJob key # rest"
  by (simp add: obtain_job_def invoke_def Let_def split: prod.splits sum.splits option.splits)

lemma wait_and_cache_extends:
  "\<exists>rest. calls (snd (wait_and_cache env key redisTTL jobTTL bullJob st)) = calls st @ rest"
  by (simp add: wait_and_cache_def invoke_def logged_def
           split: prod.splits sum.splits option.splits)

lemma on_miss_first_call:
  "\<exists>rest. calls (snd (on_miss env key redisTTL jobTTL jt ps st))
            = calls st @ QueueGetJob key # rest"
proof (cases "obtain_job env key jobTTL jt ps st")
  case (Pair r st1)
  from obtain_job_first_call [of env key jobTTL jt ps st] Pair
  obtain rest where first: "calls st1 = calls st @ QueueGetJob key # rest"
    by auto
  show ?thesis
  proof (cases r)
    case (Inl err)
    with Pair first show ?thesis
      by (simp add: on_miss_def)
  next
    case (Inr bullJob)
    from wait_and_cache_extends [of env key redisTTL jobTTL bullJob st1]
    obtain more where "calls (snd (wait_and_cache env key redisTTL jobTTL bullJob st1))
                         = calls st1 @ more"
      by auto
    with Pair Inr first show ?thesis
      by (simp add: on_miss_def)
  qed
qed

text \<open>Nothing after the cache check reads the cache.\<close>

lemma obtain_job_ignores_cache_get:
  "obtain_job (env\<lparr>cache_get := g\<rparr>) key jobTTL jt ps st = obtain_job env key jobTTL jt ps st"
  by (simp add: obtain_job_def Let_def cong: prod.case_cong sum.case_cong option.case_cong)

lemma wait_and_cache_ignores_cache_get:
  "wait_and_cache (env\<lparr>cache_get := g\<rparr>) key redisTTL jobTTL bullJob st
     = wait_and_cache env key redisTTL jobTTL bullJob st"
  by (simp add: wait_and_cache_def cong: prod.case_cong sum.case_cong)

lemma on_miss_ignores_cache_get:
  "on_miss (env\<lparr>cache_get := g\<rparr>) key redisTTL jobTTL jt ps st
     = on_miss env key redisTTL jobTTL jt ps st"
  by (simp add: on_miss_def obtain_job_ignores_cache_get wait_and_cache_ignores_cache_get
           cong: prod.case_cong sum.case_cong)

subsection \<open>The outcomes of the cache check and of the wait\<close>

lemma check_cache_throws:
  "cache_get env key (world st) = (Inl err, w1)
     \<Longrightarrow> check_cache env key st = (Inl err, \<lparr>world = w1, calls = calls st @ [CacheGet key]\<rparr>)"
  by (simp add: check_cache_def invoke_eq)

lemma check_cache_hit:
  "cache_get env key (world st) = (Inr (Some text), w1) \<Longrightarrow> JSON_parse env text = Inr v
     \<Longrightarrow> check_cache env key st
           = (Inr (Some v), \<lparr>world = w1, calls = calls st @ [CacheGet key]\<rparr>)"
  by (auto simp add: check_cache_def invoke_eq JSON_parse_def split: if_splits)

lemma check_cache_corrupt:
  "cache_get env key (world st) = (Inr (Some text), w1) \<Longrightarrow> text \<noteq> []
     \<Longrightarrow> JSON_parse env text = Inl err
     \<Longrightarrow> check_cache env key st
           = (Inr None,
              \<lparr>world = w1,
                 calls = calls st @ [CacheGet key,
                                     LoggerError (''Error parsing cache for key '' @ key) err]\<rparr>)"
  by (simp add: check_cache_def invoke_eq logged_def)

lemma check_cache_falsy:
  "cache_get env key (world st) = (Inr cached, w1) \<Longrightarrow> \<not> truthy cached
     \<Longrightarrow> check_cache env key st = (Inr None, \<lparr>world = w1, calls = calls st @ [CacheGet key]\<rparr>)"
  by (simp add: check_cache_def invoke_eq)

lemma wait_and_cache_failed:
  "job_finished env bullJob (world st) = (Inl err, w1)
     \<Longrightarrow> wait_and_cache env key redisTTL jobTTL bullJob st
           = (Inl (InternalServerErrorException
                     (''Job timed out after '' @ number_text env jobTTL @ '' ms'')),
              \<lparr>world = w1,
                 calls = calls st @ [JobFinished bullJob,
                   LoggerError (''Job for key '' @ key @ '' failed or timed out'') err]\<rparr>)"
  by (simp add: wait_and_cache_def invoke_eq logged_def)

subsection \<open>The registry\<close>

text \<open>A job type has no handler exactly when no registration named it.\<close>

lemma getHandler_registered:
  "getHandler (registered regs) jt = None \<longleftrightarrow> jt \<notin> fst ` set regs"
  by (induction regs) (auto simp add: getHandler_def registerHandler_def split: if_splits)

section \<open>The claims\<close>

subsection \<open>C2: the cache-hit fast path\<close>

text \<open>
  Claim C2. Whenever \<^verbatim>\<open>get(cacheKey)\<close> returns a value that deserializes
  successfully, \<^verbatim>\<open>cacheFirst\<close> returns the deserialized value, and the only call it
  makes is that \<^verbatim>\<open>get\<close>: no job lookup, no enqueue, no cache write.
\<close>

theorem cache_hit_fast_path:
  assumes "cache_get env key (world st) = (Inr (Some text), w1)"
      and "JSON_parse env text = Inr v"
  shows "cacheFirst env key redisTTL jobTTL jt ps st
           = (Inr v, \<lparr>world = w1, calls = calls st @ [CacheGet key]\<rparr>)"
  using check_cache_hit [OF assms] by (simp add: cacheFirst_def)

text \<open>
  Witness for C2: the store holds \<^verbatim>\<open>false\<close> under \<^verbatim>\<open>user:42\<close>; the call returns
  it after one \<^verbatim>\<open>get\<close>.
\<close>

theorem cache_hit_fast_path_witness:
  "cache_get (memory_env app_handlers) ''user:42'' (world (fresh [(''user:42'', ''false'')]))
     = (Inr (Some ''false''), \<lparr>entries = [(''user:42'', ''false'')], jobs = []\<rparr>)
   \<and> JSON_parse (memory_env app_handlers) ''false'' = Inr JFalse
   \<and> cacheFirst (memory_env app_handlers) ''user:42'' 3600 5000 ''fetchUser'' 42
        (fresh [(''user:42'', ''false'')])
       = (Inr JFalse,
          \<lparr>world = \<lparr>entries = [(''user:42'', ''false'')], jobs = []\<rparr>,
             calls = [CacheGet ''user:42'']\<rparr>)"
proof -
  have h1: "cache_get (memory_env app_handlers) ''user:42''
              (world (fresh [(''user:42'', ''false'')]))
              = (Inr (Some ''false''), \<lparr>entries = [(''user:42'', ''false'')], jobs = []\<rparr>)"
    by (simp add: memory_defs)
  have h2: "JSON_parse (memory_env app_handlers) ''false'' = Inr JFalse"
    by (simp add: JSON_parse_def memory_defs)
  from cache_hit_fast_path [OF h1 h2, of 3600 5000 "''fetchUser''" 42] h1 h2
  show ?thesis
    by (simp add: fresh_def)
qed

subsection \<open>C3: a job type without a handler\<close>

text \<open>
  Claim C3, as the code has it. On a cache miss, when the job the call awaits is
  processed under a job type that no \<^verbatim>\<open>registerHandler\<close> call named (the job's own
  type, which is the call's when the call added the job) and the job settles with the
  processor's outcome: the processor throws
  \<^verbatim>\<open>Error("No handler registered for job type: ...")\<close>, \<^verbatim>\<open>cacheFirst\<close> catches it
  and fails with the \<^verbatim>\<open>InternalServerErrorException("Job timed out after ... ms")\<close>
  that it also throws for a timeout, and it makes no cache write.
\<close>

theorem unregistered_type_reported_as_timeout:
  assumes "check_cache env key st = (Inr None, st1)"
      and "obtain_job env key jobTTL jt ps st1 = (Inr bullJob, st2)"
      and "jobType job_data \<notin> fst ` set regs"
      and "fst (job_finished env bullJob (world st2))
             = fst (handleCacheFirstJob (registered regs) job_data pst)"
  shows "fst (handleCacheFirstJob (registered regs) job_data pst)
           = Inl (Error (''No handler registered for job type: '' @ jobType job_data))
         \<and> fst (cacheFirst env key redisTTL jobTTL jt ps st)
             = Inl (InternalServerErrorException
                      (''Job timed out after '' @ number_text env jobTTL @ '' ms''))
         \<and> list_all (\<lambda>ev. \<not> is_CacheSet ev)
             (made_during st (snd (cacheFirst env key redisTTL jobTTL jt ps st)))"
proof -
  have none: "getHandler (registered regs) (jobType job_data) = None"
    using assms(3) by (simp add: getHandler_registered)
  then have thrown: "fst (handleCacheFirstJob (registered regs) job_data pst)
                       = Inl (Error (''No handler registered for job type: ''
                                       @ jobType job_data))"
    by (simp add: handleCacheFirstJob_def)
  obtain w3 where fin: "job_finished env bullJob (world st2)
                          = (Inl (Error (''No handler registered for job type: ''
                                           @ jobType job_data)), w3)"
    using assms(4) thrown by (cases "job_finished env bullJob (world st2)") simp
  have run: "cacheFirst env key redisTTL jobTTL jt ps st
               = (Inl (InternalServerErrorException
                         (''Job timed out after '' @ number_text env jobTTL @ '' ms'')),
                  \<lparr>world = w3,
                     calls = calls st2 @ [JobFinished bullJob,
                       LoggerError (''Job for key '' @ key @ '' failed or timed out'')
                         (Error (''No handler registered for job type: ''
                                   @ jobType job_data))]\<rparr>)"
    using assms(1,2) wait_and_cache_failed [OF fin]
    by (simp add: cacheFirst_def on_miss_def)
  from check_cache_calls [OF assms(1)] obtain evs1
    where c1: "calls st1 = calls st @ evs1" and q1: "list_all (\<lambda>ev. \<not> is_CacheSet ev) evs1"
    by blast
  from obtain_job_calls [OF assms(2)] obtain evs2
    where c2: "calls st2 = calls st1 @ evs2" and q2: "list_all (\<lambda>ev. \<not> is_CacheSet ev) evs2"
    by blast
  have "list_all (\<lambda>ev. \<not> is_CacheSet ev)
          (made_during st (snd (cacheFirst env key redisTTL jobTTL jt ps st)))"
    by (simp add: run made_during_def c1 c2 q1 q2)
  with run thrown show ?thesis
    by simp
qed

text \<open>
  Witness for C3: the example request on an empty store, with an empty registry.
\<close>

theorem unregistered_type_reported_as_timeout_witness:
  "check_cache (memory_env no_handlers) ''user:42'' (fresh []) = (Inr None, looked_up)
   \<and> obtain_job (memory_env no_handlers) ''user:42'' 5000 ''fetchUser'' 42 looked_up
       = (Inr user42, scheduled)
   \<and> jobType user42
       \<notin> fst ` set ([] :: (string \<times> (memory, string, jvalue, nat) CacheJobHandler) list)
   \<and> fst (job_finished (memory_env no_handlers) user42 (world scheduled))
       = fst (handleCacheFirstJob (registered []) user42 (fresh []))
   \<and> fst (handleCacheFirstJob
             (registered ([] :: (string \<times> (memory, string, jvalue, nat) CacheJobHandler) list))
             user42 (fresh []))
       = Inl (Error ''No handler registered for job type: fetchUser'')
   \<and> fst (cacheFirst (memory_env no_handlers) ''user:42'' 3600 5000 ''fetchUser'' 42 (fresh []))
       = Inl (InternalServerErrorException ''Job timed out after 5000 ms'')
   \<and> list_all (\<lambda>ev. \<not> is_CacheSet ev)
         (made_during (fresh [])
            (snd (cacheFirst (memory_env no_handlers) ''user:42'' 3600 5000 ''fetchUser'' 42
                    (fresh []))))"
proof -
  let ?none = "[] :: (string \<times> (memory, string, jvalue, nat) CacheJobHandler) list"
  have h1: "check_cache (memory_env no_handlers) ''user:42'' (fresh []) = (Inr None, looked_up)"
    by (simp add: service_defs memory_defs)
  have h2: "obtain_job (memory_env no_handlers) ''user:42'' 5000 ''fetchUser'' 42 looked_up
              = (Inr user42, scheduled)"
    by (simp add: service_defs memory_defs)
  have h3: "jobType user42 \<notin> fst ` set ?none"
    by simp
  have h4: "fst (job_finished (memory_env no_handlers) user42 (world scheduled))
              = fst (handleCacheFirstJob (registered ?none) user42 (fresh []))"
    by (simp add: service_defs memory_defs)
  have num: "number_text (memory_env no_handlers) 5000 = ''5000''"
    by (simp add: memory_env_def decimal.simps)
  note run = unregistered_type_reported_as_timeout [OF h1 h2 h3 h4, of 3600]
  have a: "fst (handleCacheFirstJob (registered ?none) user42 (fresh []))
             = Inl (Error ''No handler registered for job type: fetchUser'')"
    using run [THEN conjunct1] by (simp add: user42_def)
  have b: "fst (cacheFirst (memory_env no_handlers) ''user:42'' 3600 5000 ''fetchUser'' 42
                  (fresh []))
             = Inl (InternalServerErrorException ''Job timed out after 5000 ms'')"
    using run [THEN conjunct2, THEN conjunct1] num by simp
  show ?thesis
    by (intro conjI h1 h2 h3 h4 a b run [THEN conjunct2, THEN conjunct2])
qed

text \<open>
  Counterexample to C3 as stated. With an empty registry the example request does not
  fail with the processor's "no handler" error: the caller receives the "timed out"
  exception. And a request whose own job type was never registered, for a key under
  which the queue already holds a job of a registered type, awaits that job, returns its
  result and writes the cache: what decides is the type of the job that is processed.
\<close>

theorem unregistered_type_counterexample:
  "fst (cacheFirst (memory_env no_handlers) ''user:42'' 3600 5000 ''fetchUser'' 42 (fresh []))
     = Inl (InternalServerErrorException ''Job timed out after 5000 ms'')
   \<and> fst (handleCacheFirstJob no_handlers user42 (fresh []))
       = Inl (Error ''No handler registered for job type: fetchUser'')
   \<and> getHandler app_handlers ''warmUp'' = None
   \<and> cacheFirst (memory_env app_handlers) ''user:42'' 3600 5000 ''warmUp'' 42 holding
       = (Inr JTrue,
          \<lparr>world = \<lparr>entries = [(''user:42'', ''true'')], jobs = []\<rparr>,
             calls = [CacheGet ''user:42'', QueueGetJob ''user:42'', JobFinished user42,
                      CacheSet ''user:42'' ''true'' 3600]\<rparr>)"
  by (simp add: service_defs memory_defs holding_def decimal.simps)

subsection \<open>C4: a failing cache read\<close>

text \<open>
  Claim C4, as the code has it. \<^verbatim>\<open>get\<close> is awaited outside any \<^verbatim>\<open>try\<close>: when it
  throws, \<^verbatim>\<open>cacheFirst\<close> fails with that same error, having made no other call.
\<close>

theorem cache_read_error_propagates:
  assumes "cache_get env key (world st) = (Inl err, w1)"
  shows "cacheFirst env key redisTTL jobTTL jt ps st
           = (Inl err, \<lparr>world = w1, calls = calls st @ [CacheGet key]\<rparr>)"
  using check_cache_throws [OF assms] by (simp add: cacheFirst_def)

text \<open>Witness for C4: the example request against a store that cannot be read.\<close>

theorem cache_read_error_propagates_witness:
  "cache_get (cache_unreadable app_handlers) ''user:42'' (world (fresh []))
     = (Inl (Thrown ''ECONNRESET''), \<lparr>entries = [], jobs = []\<rparr>)
   \<and> cacheFirst (cache_unreadable app_handlers) ''user:42'' 3600 5000 ''fetchUser'' 42 (fresh [])
       = (Inl (Thrown ''ECONNRESET''),
          \<lparr>world = \<lparr>entries = [], jobs = []\<rparr>, calls = [CacheGet ''user:42'']\<rparr>)"
proof -
  have h1: "cache_get (cache_unreadable app_handlers) ''user:42'' (world (fresh []))
              = (Inl (Thrown ''ECONNRESET''), \<lparr>entries = [], jobs = []\<rparr>)"
    by (simp add: cache_unreadable_def memory_defs)
  from cache_read_error_propagates [OF h1, of 3600 5000 "''fetchUser''" 42] h1
  show ?thesis
    by (simp add: fresh_def)
qed

text \<open>
  Counterexample to C4 as stated: against a store whose \<^verbatim>\<open>get\<close> throws, the example
  request fails with the store's error and never looks a job up, whereas on a miss the
  same request returns the handler's result.
\<close>

theorem cache_read_error_counterexample:
  "fst (cacheFirst (cache_unreadable app_handlers) ''user:42'' 3600 5000 ''fetchUser'' 42
          (fresh []))
     = Inl (Thrown ''ECONNRESET'')
   \<and> calls (snd (cacheFirst (cache_unreadable app_handlers) ''user:42'' 3600 5000 ''fetchUser''
                    42 (fresh [])))
       = [CacheGet ''user:42'']
   \<and> fst (cacheFirst (memory_env app_handlers) ''user:42'' 3600 5000 ''fetchUser'' 42 (fresh []))
       = Inr JTrue"
  by (simp add: service_defs cache_unreadable_def memory_defs)

subsection \<open>C5: a failed wait\<close>

text \<open>
  Claim C5. Whenever a \<^verbatim>\<open>cacheFirst\<close> call reaches the wait for its job and
  \<^verbatim>\<open>finished()\<close> fails (the job failed or timed out), the call fails with
  \<^verbatim>\<open>InternalServerErrorException("Job timed out after <jobTTL> ms")\<close>, and no call of
  the cache driver's \<^verbatim>\<open>set\<close> is made during it.
\<close>

theorem wait_failure_times_out:
  assumes "check_cache env key st = (Inr None, st1)"
      and "obtain_job env key jobTTL jt ps st1 = (Inr bullJob, st2)"
      and "job_finished env bullJob (world st2) = (Inl err, w3)"
  shows "cacheFirst env key redisTTL jobTTL jt ps st
           = (Inl (InternalServerErrorException
                     (''Job timed out after '' @ number_text env jobTTL @ '' ms'')),
              \<lparr>world = w3,
                 calls = calls st2 @ [JobFinished bullJob,
                   LoggerError (''Job for key '' @ key @ '' failed or timed out'') err]\<rparr>)
         \<and> list_all (\<lambda>ev. \<not> is_CacheSet ev)
             (made_during st (snd (cacheFirst env key redisTTL jobTTL jt ps st)))"
proof -
  have run: "cacheFirst env key redisTTL jobTTL jt ps st
               = (Inl (InternalServerErrorException
                         (''Job timed out after '' @ number_text env jobTTL @ '' ms'')),
                  \<lparr>world = w3,
                     calls = calls st2 @ [JobFinished bullJob,
                       LoggerError (''Job for key '' @ key @ '' failed or timed out'') err]\<rparr>)"
    using assms(1,2) wait_and_cache_failed [OF assms(3)]
    by (simp add: cacheFirst_def on_miss_def)
  from check_cache_calls [OF assms(1)] obtain evs1
    where c1: "calls st1 = calls st @ evs1" and q1: "list_all (\<lambda>ev. \<not> is_CacheSet ev) evs1"
    by blast
  from obtain_job_calls [OF assms(2)] obtain evs2
    where c2: "calls st2 = calls st1 @ evs2" and q2: "list_all (\<lambda>ev. \<not> is_CacheSet ev) evs2"
    by blast
  have "list_all (\<lambda>ev. \<not> is_CacheSet ev)
          (made_during st (snd (cacheFirst env key redisTTL jobTTL jt ps st)))"
    by (simp add: run made_during_def c1 c2 q1 q2)
  with run show ?thesis
    by simp
qed

text \<open>Witness for C5: the example request with a handler that throws.\<close>

theorem wait_failure_times_out_witness:
  "check_cache (memory_env failing_handlers) ''user:42'' (fresh []) = (Inr None, looked_up)
   \<and> obtain_job (memory_env failing_handlers) ''user:42'' 5000 ''fetchUser'' 42 looked_up
       = (Inr user42, scheduled)
   \<and> job_finished (memory_env failing_handlers) user42 (world scheduled)
       = (Inl (Thrown ''upstream 503''), \<lparr>entries = [], jobs = []\<rparr>)
   \<and> cacheFirst (memory_env failing_handlers) ''user:42'' 3600 5000 ''fetchUser'' 42 (fresh [])
       = (Inl (InternalServerErrorException ''Job timed out after 5000 ms''),
          \<lparr>world = \<lparr>entries = [], jobs = []\<rparr>,
             calls = calls scheduled @ [JobFinished user42,
               LoggerError ''Job for key user:42 failed or timed out''
                 (Thrown ''upstream 503'')]\<rparr>)
   \<and> list_all (\<lambda>ev. \<not> is_CacheSet ev)
         (made_during (fresh [])
            (snd (cacheFirst (memory_env failing_handlers) ''user:42'' 3600 5000 ''fetchUser'' 42
                    (fresh []))))"
proof -
  have h1: "check_cache (memory_env failing_handlers) ''user:42'' (fresh [])
              = (Inr None, looked_up)"
    by (simp add: service_defs memory_defs)
  have h2: "obtain_job (memory_env failing_handlers) ''user:42'' 5000 ''fetchUser'' 42 looked_up
              = (Inr user42, scheduled)"
    by (simp add: service_defs memory_defs)
  have h3: "job_finished (memory_env failing_handlers) user42 (world scheduled)
              = (Inl (Thrown ''upstream 503''), \<lparr>entries = [], jobs = []\<rparr>)"
    by (simp add: service_defs memory_defs)
  have num: "number_text (memory_env failing_handlers) 5000 = ''5000''"
    by (simp add: memory_env_def decimal.simps)
  note run = wait_failure_times_out [OF h1 h2 h3, of 3600]
  have a: "cacheFirst (memory_env failing_handlers) ''user:42'' 3600 5000 ''fetchUser'' 42
             (fresh [])
             = (Inl (InternalServerErrorException ''Job timed out after 5000 ms''),
                \<lparr>world = \<lparr>entries = [], jobs = []\<rparr>,
                   calls = calls scheduled @ [JobFinished user42,
                     LoggerError ''Job for key user:42 failed or timed out''
                       (Thrown ''upstream 503'')]\<rparr>)"
    using run [THEN conjunct1] num by simp
  show ?thesis
    by (intro conjI h1 h2 h3 a run [THEN conjunct2])
qed

subsection \<open>C6: a failed enqueue\<close>

text \<open>
  Claim C6, as the code has it. On a cache miss with no job found, when \<^verbatim>\<open>add\<close>
  throws, the job is looked up again, outside any \<^verbatim>\<open>try\<close>. If the lookup returns a job,
  that job is awaited: \<^verbatim>\<open>finished()\<close> is the next call, on that job, and the call
  returns the job's result, or fails with the "timed out" exception if the wait fails.
  If the lookup returns no job, the call fails with
  \<^verbatim>\<open>InternalServerErrorException("Failed to schedule cache job")\<close>. If the lookup itself
  throws, the call fails with the lookup's error. In the last two cases nothing more is
  called.
\<close>

theorem enqueue_failure_outcomes:
  assumes "check_cache env key st = (Inr None, st1)"
      and "queue_getJob env key (world st1) = (Inr None, w2)"
      and "queue_add env ''cacheFirstJob'' \<lparr>jobType = jt, params = ps, cacheKey = key\<rparr>
             \<lparr>jobId = key, removeOnComplete = True, timeout = jobTTL\<rparr> w2 = (Inl error, w3)"
      and "queue_getJob env key w3 = (again, w4)"
  shows "fst (cacheFirst env key redisTTL jobTTL jt ps st)
           = (case again of
                Inl err \<Rightarrow> Inl err
              | Inr (Some bullJob) \<Rightarrow>
                  (case fst (job_finished env bullJob w4) of
                     Inl err \<Rightarrow>
                       Inl (InternalServerErrorException
                              (''Job timed out after '' @ number_text env jobTTL @ '' ms''))
                   | Inr result \<Rightarrow> Inr result)
              | Inr None \<Rightarrow>
                  Inl (InternalServerErrorException ''Failed to schedule cache job''))
         \<and> (\<exists>rest. calls (snd (cacheFirst env key redisTTL jobTTL jt ps st))
                     = calls st1 @ QueueGetJob key #
                         QueueAdd ''cacheFirstJob'' \<lparr>jobType = jt, params = ps, cacheKey = key\<rparr>
                           \<lparr>jobId = key, removeOnComplete = True, timeout = jobTTL\<rparr> #
                         QueueGetJob key #
                         (case again of
                            Inl err \<Rightarrow> []
                          | Inr (Some bullJob) \<Rightarrow> JobFinished bullJob # rest
                          | Inr None \<Rightarrow> []))"
proof -
  have run: "cacheFirst env key redisTTL jobTTL jt ps st = on_miss env key redisTTL jobTTL jt ps st1"
    using assms(1) by (simp add: cacheFirst_def)
  show ?thesis
  proof (cases again)
    case (Inl err)
    with assms show ?thesis
      by (simp add: run on_miss_def obtain_job_def wait_and_cache_def invoke_def logged_def Let_def
               split: prod.splits sum.splits)
  next
    case second: (Inr relooked)
    show ?thesis
    proof (cases relooked)
      case None
      with second assms show ?thesis
        by (simp add: run on_miss_def obtain_job_def wait_and_cache_def invoke_def logged_def Let_def
                 split: prod.splits sum.splits)
    next
      case (Some bullJob)
      with second assms show ?thesis
        by (simp add: run on_miss_def obtain_job_def wait_and_cache_def invoke_def logged_def Let_def
                 split: prod.splits sum.splits)
    qed
  qed
qed

text \<open>
  Witness for C6: the example request against a queue where another caller has just added
  the job, against a queue that adds nothing, and against a queue whose connection drops
  during \<^verbatim>\<open>add\<close>.
\<close>

theorem enqueue_failure_outcomes_witness:
  "check_cache (queue_raced app_handlers) ''user:42'' (fresh []) = (Inr None, looked_up)
   \<and> queue_getJob (queue_raced app_handlers) ''user:42'' (world looked_up) = (Inr None, \<lparr>entries = [], jobs = []\<rparr>)
   \<and> queue_add (queue_raced app_handlers) ''cacheFirstJob''
        \<lparr>jobType = ''fetchUser'', params = 42, cacheKey = ''user:42''\<rparr>
        \<lparr>jobId = ''user:42'', removeOnComplete = True, timeout = 5000\<rparr>
        \<lparr>entries = [], jobs = []\<rparr>
       = (Inl (Thrown ''duplicate job id''), \<lparr>entries = [], jobs = [(''user:42'', user42)]\<rparr>)
   \<and> queue_getJob (queue_raced app_handlers) ''user:42'' \<lparr>entries = [], jobs = [(''user:42'', user42)]\<rparr> = (Inr (Some user42), \<lparr>entries = [], jobs = [(''user:42'', user42)]\<rparr>)
   \<and> fst (cacheFirst (queue_raced app_handlers) ''user:42'' 3600 5000 ''fetchUser'' 42 (fresh [])) = Inr JTrue
   \<and> calls (snd (cacheFirst (queue_raced app_handlers) ''user:42'' 3600 5000 ''fetchUser'' 42 (fresh [])))
       = [CacheGet ''user:42'', QueueGetJob ''user:42'',
          QueueAdd ''cacheFirstJob'' user42 user42_opts, QueueGetJob ''user:42'',
          JobFinished user42, CacheSet ''user:42'' ''true'' 3600]
   \<and> check_cache (queue_closed app_handlers) ''user:42'' (fresh []) = (Inr None, looked_up)
   \<and> queue_getJob (queue_closed app_handlers) ''user:42'' (world looked_up) = (Inr None, \<lparr>entries = [], jobs = []\<rparr>)
   \<and> queue_add (queue_closed app_handlers) ''cacheFirstJob''
        \<lparr>jobType = ''fetchUser'', params = 42, cacheKey = ''user:42''\<rparr>
        \<lparr>jobId = ''user:42'', removeOnComplete = True, timeout = 5000\<rparr>
        \<lparr>entries = [], jobs = []\<rparr>
       = (Inl (Thrown ''queue closed''), \<lparr>entries = [], jobs = []\<rparr>)
   \<and> queue_getJob (queue_closed app_handlers) ''user:42'' \<lparr>entries = [], jobs = []\<rparr> = (Inr None, \<lparr>entries = [], jobs = []\<rparr>)
   \<and> fst (cacheFirst (queue_closed app_handlers) ''user:42'' 3600 5000 ''fetchUser'' 42 (fresh []))
       = Inl (InternalServerErrorException ''Failed to schedule cache job'')
   \<and> calls (snd (cacheFirst (queue_closed app_handlers) ''user:42'' 3600 5000 ''fetchUser'' 42 (fresh [])))
       = [CacheGet ''user:42'', QueueGetJob ''user:42'',
          QueueAdd ''cacheFirstJob'' user42 user42_opts, QueueGetJob ''user:42'']
   \<and> check_cache queue_dropped ''user:42'' connected = (Inr None, \<lparr>world = True, calls = [CacheGet ''user:42'']\<rparr>)
   \<and> queue_getJob queue_dropped ''user:42'' (world \<lparr>world = True, calls = [CacheGet ''user:42'']\<rparr>) = (Inr None, True)
   \<and> queue_add queue_dropped ''cacheFirstJob''
        \<lparr>jobType = ''fetchUser'', params = 42, cacheKey = ''user:42''\<rparr>
        \<lparr>jobId = ''user:42'', removeOnComplete = True, timeout = 5000\<rparr>
        True
       = (Inl (Thrown ''Connection is closed.''), False)
   \<and> queue_getJob queue_dropped ''user:42'' False = (Inl (Thrown ''Connection is closed.''), False)
   \<and> fst (cacheFirst queue_dropped ''user:42'' 3600 5000 ''fetchUser'' 42 connected)
       = Inl (Thrown ''Connection is closed.'')"
proof -
  have r1: "check_cache (queue_raced app_handlers) ''user:42'' (fresh []) = (Inr None, looked_up)"
    by (simp add: service_defs queue_raced_def memory_defs)
  have r2: "queue_getJob (queue_raced app_handlers) ''user:42'' (world looked_up) = (Inr None, \<lparr>entries = [], jobs = []\<rparr>)"
    by (simp add: service_defs queue_raced_def memory_defs)
  have r3: "queue_add (queue_raced app_handlers) ''cacheFirstJob''
        \<lparr>jobType = ''fetchUser'', params = 42, cacheKey = ''user:42''\<rparr>
        \<lparr>jobId = ''user:42'', removeOnComplete = True, timeout = 5000\<rparr>
        \<lparr>entries = [], jobs = []\<rparr>
       = (Inl (Thrown ''duplicate job id''), \<lparr>entries = [], jobs = [(''user:42'', user42)]\<rparr>)"
    by (simp add: service_defs queue_raced_def memory_defs)
  have r4: "queue_getJob (queue_raced app_handlers) ''user:42'' \<lparr>entries = [], jobs = [(''user:42'', user42)]\<rparr> = (Inr (Some user42), \<lparr>entries = [], jobs = [(''user:42'', user42)]\<rparr>)"
    by (simp add: service_defs queue_raced_def memory_defs)
  have c1: "check_cache (queue_closed app_handlers) ''user:42'' (fresh []) = (Inr None, looked_up)"
    by (simp add: service_defs queue_closed_def memory_defs)
  have c2: "queue_getJob (queue_closed app_handlers) ''user:42'' (world looked_up) = (Inr None, \<lparr>entries = [], jobs = []\<rparr>)"
    by (simp add: service_defs queue_closed_def memory_defs)
  have c3: "queue_add (queue_closed app_handlers) ''cacheFirstJob''
        \<lparr>jobType = ''fetchUser'', params = 42, cacheKey = ''user:42''\<rparr>
        \<lparr>jobId = ''user:42'', removeOnComplete = True, timeout = 5000\<rparr>
        \<lparr>entries = [], jobs = []\<rparr>
       = (Inl (Thrown ''queue closed''), \<lparr>entries = [], jobs = []\<rparr>)"
    by (simp add: service_defs queue_closed_def memory_defs)
  have c4: "queue_getJob (queue_closed app_handlers) ''user:42'' \<lparr>entries = [], jobs = []\<rparr> = (Inr None, \<lparr>entries = [], jobs = []\<rparr>)"
    by (simp add: service_defs queue_closed_def memory_defs)
  have d1: "check_cache queue_dropped ''user:42'' connected = (Inr None, \<lparr>world = True, calls = [CacheGet ''user:42'']\<rparr>)"
    by (simp add: service_defs queue_dropped_def connected_def)
  have d2: "queue_getJob queue_dropped ''user:42'' (world \<lparr>world = True, calls = [CacheGet ''user:42'']\<rparr>) = (Inr None, True)"
    by (simp add: service_defs queue_dropped_def connected_def)
  have d3: "queue_add queue_dropped ''cacheFirstJob''
        \<lparr>jobType = ''fetchUser'', params = 42, cacheKey = ''user:42''\<rparr>
        \<lparr>jobId = ''user:42'', removeOnComplete = True, timeout = 5000\<rparr>
        True
       = (Inl (Thrown ''Connection is closed.''), False)"
    by (simp add: service_defs queue_dropped_def connected_def)
  have d4: "queue_getJob queue_dropped ''user:42'' False = (Inl (Thrown ''Connection is closed.''), False)"
    by (simp add: service_defs queue_dropped_def connected_def)
  have r5: "fst (cacheFirst (queue_raced app_handlers) ''user:42'' 3600 5000 ''fetchUser'' 42 (fresh [])) = Inr JTrue"
    using enqueue_failure_outcomes [OF r1 r2 r3 r4, of 3600, THEN conjunct1]
    by (simp add: queue_raced_def memory_defs invoke_def logged_def)
  have r6: "calls (snd (cacheFirst (queue_raced app_handlers) ''user:42'' 3600 5000 ''fetchUser'' 42 (fresh [])))
       = [CacheGet ''user:42'', QueueGetJob ''user:42'',
          QueueAdd ''cacheFirstJob'' user42 user42_opts, QueueGetJob ''user:42'',
          JobFinished user42, CacheSet ''user:42'' ''true'' 3600]"
    by (simp add: service_defs queue_raced_def memory_defs)
  have c5: "fst (cacheFirst (queue_closed app_handlers) ''user:42'' 3600 5000 ''fetchUser'' 42 (fresh []))
       = Inl (InternalServerErrorException ''Failed to schedule cache job'')"
    using enqueue_failure_outcomes [OF c1 c2 c3 c4, of 3600, THEN conjunct1]
    by simp
  have c6: "calls (snd (cacheFirst (queue_closed app_handlers) ''user:42'' 3600 5000 ''fetchUser'' 42 (fresh [])))
       = [CacheGet ''user:42'', QueueGetJob ''user:42'',
          QueueAdd ''cacheFirstJob'' user42 user42_opts, QueueGetJob ''user:42'']"
    by (simp add: service_defs queue_closed_def memory_defs)
  have d5: "fst (cacheFirst queue_dropped ''user:42'' 3600 5000 ''fetchUser'' 42 connected)
       = Inl (Thrown ''Connection is closed.'')"
    using enqueue_failure_outcomes [OF d1 d2 d3 d4, of 3600, THEN conjunct1]
    by simp
  show ?thesis
    by (intro conjI r1 r2 r3 r4 r5 r6 c1 c2 c3 c4 c5 c6 d1 d2 d3 d4 d5)
qed

text \<open>
  Counterexample to C6 as stated: the queue's connection drops during \<^verbatim>\<open>add\<close>, so no
  existing job can be fetched; the call fails with the connection error of the second
  lookup, not with "Failed to schedule cache job".
\<close>

theorem enqueue_failure_counterexample:
  "queue_getJob queue_dropped ''user:42'' True = (Inr None, True)
   \<and> queue_add queue_dropped ''cacheFirstJob'' user42 user42_opts True
       = (Inl (Thrown ''Connection is closed.''), False)
   \<and> queue_getJob queue_dropped ''user:42'' False
       = (Inl (Thrown ''Connection is closed.''), False)
   \<and> cacheFirst queue_dropped ''user:42'' 3600 5000 ''fetchUser'' 42 connected
       = (Inl (Thrown ''Connection is closed.''),
          \<lparr>world = False,
             calls = [CacheGet ''user:42'', QueueGetJob ''user:42'',
                      QueueAdd ''cacheFirstJob'' user42 user42_opts, QueueGetJob ''user:42'']\<rparr>)"
  by (simp add: service_defs queue_dropped_def connected_def user42_def user42_opts_def)

subsection \<open>C7: a failed cache write\<close>

text \<open>
  Claim C7. Whenever the job completes with a result and the following \<^verbatim>\<open>set\<close>
  throws, \<^verbatim>\<open>cacheFirst\<close> logs the error and returns the result.
\<close>

theorem cache_write_failure_is_swallowed:
  assumes "check_cache env key st = (Inr None, st1)"
      and "obtain_job env key jobTTL jt ps st1 = (Inr bullJob, st2)"
      and "job_finished env bullJob (world st2) = (Inr result, w3)"
      and "json_stringify env result = Inr text"
      and "cache_set env key text redisTTL w3 = (Inl err, w4)"
  shows "cacheFirst env key redisTTL jobTTL jt ps st
           = (Inr result,
              \<lparr>world = w4,
                 calls = calls st2 @ [JobFinished bullJob, CacheSet key text redisTTL,
                   LoggerError (''Error setting cache for key '' @ key) err]\<rparr>)"
  using assms
  by (simp add: cacheFirst_def on_miss_def wait_and_cache_def invoke_eq logged_def)

text \<open>Witness for C7: the example request against a store that cannot be written.\<close>

theorem cache_write_failure_is_swallowed_witness:
  "check_cache (cache_unwritable app_handlers) ''user:42'' (fresh []) = (Inr None, looked_up)
   \<and> obtain_job (cache_unwritable app_handlers) ''user:42'' 5000 ''fetchUser'' 42 looked_up
       = (Inr user42, scheduled)
   \<and> job_finished (cache_unwritable app_handlers) user42 (world scheduled)
       = (Inr JTrue, \<lparr>entries = [], jobs = []\<rparr>)
   \<and> json_stringify (cache_unwritable app_handlers) JTrue = Inr ''true''
   \<and> cache_set (cache_unwritable app_handlers) ''user:42'' ''true'' 3600
        \<lparr>entries = [], jobs = []\<rparr>
       = (Inl (Thrown ''READONLY''), \<lparr>entries = [], jobs = []\<rparr>)
   \<and> cacheFirst (cache_unwritable app_handlers) ''user:42'' 3600 5000 ''fetchUser'' 42 (fresh [])
       = (Inr JTrue,
          \<lparr>world = \<lparr>entries = [], jobs = []\<rparr>,
             calls = calls scheduled @ [JobFinished user42, CacheSet ''user:42'' ''true'' 3600,
               LoggerError ''Error setting cache for key user:42'' (Thrown ''READONLY'')]\<rparr>)"
proof -
  have h1: "check_cache (cache_unwritable app_handlers) ''user:42'' (fresh [])
              = (Inr None, looked_up)"
    by (simp add: service_defs cache_unwritable_def memory_defs)
  have h2: "obtain_job (cache_unwritable app_handlers) ''user:42'' 5000 ''fetchUser'' 42 looked_up
              = (Inr user42, scheduled)"
    by (simp add: service_defs cache_unwritable_def memory_defs)
  have h3: "job_finished (cache_unwritable app_handlers) user42 (world scheduled)
              = (Inr JTrue, \<lparr>entries = [], jobs = []\<rparr>)"
    by (simp add: service_defs cache_unwritable_def memory_defs)
  have h4: "json_stringify (cache_unwritable app_handlers) JTrue = Inr ''true''"
    by (simp add: cache_unwritable_def memory_defs)
  have h5: "cache_set (cache_unwritable app_handlers) ''user:42'' ''true'' 3600
              \<lparr>entries = [], jobs = []\<rparr>
              = (Inl (Thrown ''READONLY''), \<lparr>entries = [], jobs = []\<rparr>)"
    by (simp add: cache_unwritable_def memory_defs)
  have a: "cacheFirst (cache_unwritable app_handlers) ''user:42'' 3600 5000 ''fetchUser'' 42
             (fresh [])
             = (Inr JTrue,
                \<lparr>world = \<lparr>entries = [], jobs = []\<rparr>,
                   calls = calls scheduled @ [JobFinished user42,
                     CacheSet ''user:42'' ''true'' 3600,
                     LoggerError ''Error setting cache for key user:42''
                       (Thrown ''READONLY'')]\<rparr>)"
    using cache_write_failure_is_swallowed [OF h1 h2 h3 h4 h5] by simp
  show ?thesis
    by (intro conjI h1 h2 h3 h4 h5 a)
qed

subsection \<open>C8: a corrupt cache entry\<close>

text \<open>
  Claim C8, as the code has it. Whenever \<^verbatim>\<open>get\<close> returns a value that
  \<^verbatim>\<open>JSON.parse\<close> rejects, \<^verbatim>\<open>cacheFirst\<close> does not raise the parse error: its outcome
  and its effect on the collaborators are those of the same call with \<^verbatim>\<open>get\<close>
  answering \<^verbatim>\<open>null\<close>. It looks the job up; if there is none it adds one with the call's
  payload and the cache key as job id, looking again if \<^verbatim>\<open>add\<close> throws; it awaits the
  job it obtained and returns the job's result, or fails with the "timed out" exception.
  The parse error is logged, unless the value is the empty string: that value is falsy,
  is never parsed, and nothing is logged for it.
\<close>

theorem corrupt_entry_is_a_miss:
  assumes "cache_get env key (world st) = (Inr (Some text), w1)"
      and "JSON_parse env text = Inl err"
      and "queue_getJob env key w1 = (found, w2)"
      and "queue_add env ''cacheFirstJob'' \<lparr>jobType = jt, params = ps, cacheKey = key\<rparr>
             \<lparr>jobId = key, removeOnComplete = True, timeout = jobTTL\<rparr> w2 = (added, w3)"
      and "queue_getJob env key w3 = (again, w4)"
  shows "fst (cacheFirst env key redisTTL jobTTL jt ps st)
           = fst (cacheFirst (env\<lparr>cache_get := (\<lambda>k w. (Inr None, w1))\<rparr>) key redisTTL jobTTL jt ps st)
         \<and> world (snd (cacheFirst env key redisTTL jobTTL jt ps st))
             = world (snd (cacheFirst (env\<lparr>cache_get := (\<lambda>k w. (Inr None, w1))\<rparr>) key redisTTL jobTTL jt ps st))
         \<and> fst (cacheFirst env key redisTTL jobTTL jt ps st)
             = (case found of
                  Inl err \<Rightarrow> Inl err
                | Inr (Some bullJob) \<Rightarrow>
                    (case fst (job_finished env bullJob w2) of
                       Inl err \<Rightarrow>
                         Inl (InternalServerErrorException
                                (''Job timed out after '' @ number_text env jobTTL @ '' ms''))
                     | Inr result \<Rightarrow> Inr result)
                | Inr None \<Rightarrow>
                    (case added of
                       Inr bullJob \<Rightarrow>
                         (case fst (job_finished env bullJob w3) of
                            Inl err \<Rightarrow>
                              Inl (InternalServerErrorException
                                     (''Job timed out after '' @ number_text env jobTTL @ '' ms''))
                          | Inr result \<Rightarrow> Inr result)
                     | Inl error \<Rightarrow>
                         (case again of
                            Inl err \<Rightarrow> Inl err
                          | Inr (Some bullJob) \<Rightarrow>
                              (case fst (job_finished env bullJob w4) of
                                 Inl err \<Rightarrow>
                                   Inl (InternalServerErrorException
                                          (''Job timed out after '' @ number_text env jobTTL @ '' ms''))
                               | Inr result \<Rightarrow> Inr result)
                          | Inr None \<Rightarrow>
                              Inl (InternalServerErrorException ''Failed to schedule cache job''))))
         \<and> (\<exists>rest. calls (snd (cacheFirst env key redisTTL jobTTL jt ps st))
                     = calls st @ CacheGet key #
                         (if text = [] then [] else [LoggerError (''Error parsing cache for key '' @ key) err])
                         @ QueueGetJob key #
                         (case found of
                            Inl err \<Rightarrow> []
                          | Inr (Some bullJob) \<Rightarrow> JobFinished bullJob # rest
                          | Inr None \<Rightarrow>
                              QueueAdd ''cacheFirstJob'' \<lparr>jobType = jt, params = ps, cacheKey = key\<rparr>
                                \<lparr>jobId = key, removeOnComplete = True, timeout = jobTTL\<rparr> #
                              (case added of
                                 Inr bullJob \<Rightarrow> JobFinished bullJob # rest
                               | Inl error \<Rightarrow>
                                   QueueGetJob key #
                                   (case again of
                                      Inl err \<Rightarrow> []
                                    | Inr (Some bullJob) \<Rightarrow> JobFinished bullJob # rest
                                    | Inr None \<Rightarrow> []))))"
proof -
  let ?null = "env\<lparr>cache_get := (\<lambda>k w. (Inr None, w1))\<rparr>"
  let ?plain = "\<lparr>world = w1, calls = calls st @ [CacheGet key]\<rparr>"
  let ?after = "\<lparr>world = w1,
                  calls = calls st @ CacheGet key #
                    (if text = [] then [] else [LoggerError (''Error parsing cache for key '' @ key) err])\<rparr>"
  have run: "cacheFirst env key redisTTL jobTTL jt ps st = on_miss env key redisTTL jobTTL jt ps ?after"
    using assms(1,2) by (simp add: cacheFirst_def check_cache_def invoke_def logged_def)
  have "check_cache ?null key st = (Inr None, ?plain)"
    by (rule check_cache_falsy [where cached = None]) simp_all
  then have miss: "cacheFirst ?null key redisTTL jobTTL jt ps st
                     = on_miss env key redisTTL jobTTL jt ps ?plain"
    by (simp add: cacheFirst_def on_miss_ignores_cache_get)
  have same: "fst (on_miss env key redisTTL jobTTL jt ps ?after)
                = fst (on_miss env key redisTTL jobTTL jt ps ?plain)
              \<and> world (snd (on_miss env key redisTTL jobTTL jt ps ?after))
                = world (snd (on_miss env key redisTTL jobTTL jt ps ?plain))"
    by (rule on_miss_results) simp
  have direct: "fst (cacheFirst env key redisTTL jobTTL jt ps st)
             = (case found of
                  Inl err \<Rightarrow> Inl err
                | Inr (Some bullJob) \<Rightarrow>
                    (case fst (job_finished env bullJob w2) of
                       Inl err \<Rightarrow>
                         Inl (InternalServerErrorException
                                (''Job timed out after '' @ number_text env jobTTL @ '' ms''))
                     | Inr result \<Rightarrow> Inr result)
                | Inr None \<Rightarrow>
                    (case added of
                       Inr bullJob \<Rightarrow>
                         (case fst (job_finished env bullJob w3) of
                            Inl err \<Rightarrow>
                              Inl (InternalServerErrorException
                                     (''Job timed out after '' @ number_text env jobTTL @ '' ms''))
                          | Inr result \<Rightarrow> Inr result)
                     | Inl error \<Rightarrow>
                         (case again of
                            Inl err \<Rightarrow> Inl err
                          | Inr (Some bullJob) \<Rightarrow>
                              (case fst (job_finished env bullJob w4) of
                                 Inl err \<Rightarrow>
                                   Inl (InternalServerErrorException
                                          (''Job timed out after '' @ number_text env jobTTL @ '' ms''))
                               | Inr result \<Rightarrow> Inr result)
                          | Inr None \<Rightarrow>
                              Inl (InternalServerErrorException ''Failed to schedule cache job''))))
         \<and> (\<exists>rest. calls (snd (cacheFirst env key redisTTL jobTTL jt ps st))
                     = calls st @ CacheGet key #
                         (if text = [] then [] else [LoggerError (''Error parsing cache for key '' @ key) err])
                         @ QueueGetJob key #
                         (case found of
                            Inl err \<Rightarrow> []
                          | Inr (Some bullJob) \<Rightarrow> JobFinished bullJob # rest
                          | Inr None \<Rightarrow>
                              QueueAdd ''cacheFirstJob'' \<lparr>jobType = jt, params = ps, cacheKey = key\<rparr>
                                \<lparr>jobId = key, removeOnComplete = True, timeout = jobTTL\<rparr> #
                              (case added of
                                 Inr bullJob \<Rightarrow> JobFinished bullJob # rest
                               | Inl error \<Rightarrow>
                                   QueueGetJob key #
                                   (case again of
                                      Inl err \<Rightarrow> []
                                    | Inr (Some bullJob) \<Rightarrow> JobFinished bullJob # rest
                                    | Inr None \<Rightarrow> []))))"
  proof (cases found)
    case (Inl err)
    with assms show ?thesis
      by (simp add: run on_miss_def obtain_job_def wait_and_cache_def invoke_def logged_def Let_def
               split: prod.splits sum.splits)
  next
    case first: (Inr looked)
    show ?thesis
    proof (cases looked)
      case (Some bullJob)
      with first assms show ?thesis
        by (simp add: run on_miss_def obtain_job_def wait_and_cache_def invoke_def logged_def Let_def
                 split: prod.splits sum.splits)
    next
      case none: None
      show ?thesis
      proof (cases added)
        case (Inr bullJob)
        with first none assms show ?thesis
          by (simp add: run on_miss_def obtain_job_def wait_and_cache_def invoke_def logged_def Let_def
                   split: prod.splits sum.splits)
      next
        case failed: (Inl error)
        show ?thesis
        proof (cases again)
          case (Inl err)
          with first none failed assms show ?thesis
            by (simp add: run on_miss_def obtain_job_def wait_and_cache_def invoke_def logged_def Let_def
                     split: prod.splits sum.splits)
        next
          case second: (Inr relooked)
          show ?thesis
          proof (cases relooked)
            case None
            with first none failed second assms show ?thesis
              by (simp add: run on_miss_def obtain_job_def wait_and_cache_def invoke_def logged_def Let_def
                       split: prod.splits sum.splits)
          next
            case (Some bullJob)
            with first none failed second assms show ?thesis
              by (simp add: run on_miss_def obtain_job_def wait_and_cache_def invoke_def logged_def Let_def
                       split: prod.splits sum.splits)
          qed
        qed
      qed
    qed
  qed
  have rel1: "fst (cacheFirst env key redisTTL jobTTL jt ps st)
               = fst (cacheFirst (env\<lparr>cache_get := (\<lambda>k w. (Inr None, w1))\<rparr>) key redisTTL jobTTL jt ps st)"
    using run miss same by simp
  have rel2: "world (snd (cacheFirst env key redisTTL jobTTL jt ps st))
               = world (snd (cacheFirst (env\<lparr>cache_get := (\<lambda>k w. (Inr None, w1))\<rparr>) key redisTTL jobTTL jt ps st))"
    using run miss same by simp
  show ?thesis
    by (intro conjI rel1 rel2 direct [THEN conjunct1] direct [THEN conjunct2])
qed

text \<open>
  Witness for C8: the store holds the text \<^verbatim>\<open>{broken\<close> under \<^verbatim>\<open>user:42\<close>; the parse
  error is logged, a job is added and awaited, and its result is returned and cached.
\<close>

theorem corrupt_entry_is_a_miss_witness:
  "cache_get (memory_env app_handlers) ''user:42'' (world (fresh [(''user:42'', ''{broken'')]))
     = (Inr (Some ''{broken''), \<lparr>entries = [(''user:42'', ''{broken'')], jobs = []\<rparr>)
   \<and> JSON_parse (memory_env app_handlers) ''{broken'' = Inl (SyntaxError ''Unexpected token'')
   \<and> queue_getJob (memory_env app_handlers) ''user:42'' \<lparr>entries = [(''user:42'', ''{broken'')], jobs = []\<rparr> = (Inr None, \<lparr>entries = [(''user:42'', ''{broken'')], jobs = []\<rparr>)
   \<and> queue_add (memory_env app_handlers) ''cacheFirstJob''
        \<lparr>jobType = ''fetchUser'', params = 42, cacheKey = ''user:42''\<rparr>
        \<lparr>jobId = ''user:42'', removeOnComplete = True, timeout = 5000\<rparr>
        \<lparr>entries = [(''user:42'', ''{broken'')], jobs = []\<rparr>
       = (Inr user42, \<lparr>entries = [(''user:42'', ''{broken'')], jobs = [(''user:42'', user42)]\<rparr>)
   \<and> queue_getJob (memory_env app_handlers) ''user:42'' \<lparr>entries = [(''user:42'', ''{broken'')], jobs = [(''user:42'', user42)]\<rparr> = (Inr (Some user42), \<lparr>entries = [(''user:42'', ''{broken'')], jobs = [(''user:42'', user42)]\<rparr>)
   \<and> fst (cacheFirst (memory_env app_handlers) ''user:42'' 3600 5000 ''fetchUser'' 42 (fresh [(''user:42'', ''{broken'')])) = Inr JTrue
   \<and> calls (snd (cacheFirst (memory_env app_handlers) ''user:42'' 3600 5000 ''fetchUser'' 42 (fresh [(''user:42'', ''{broken'')])))
       = [CacheGet ''user:42'',
          LoggerError ''Error parsing cache for key user:42'' (SyntaxError ''Unexpected token''),
          QueueGetJob ''user:42'', QueueAdd ''cacheFirstJob'' user42 user42_opts,
          JobFinished user42, CacheSet ''user:42'' ''true'' 3600]"
proof -
  have h1: "cache_get (memory_env app_handlers) ''user:42'' (world (fresh [(''user:42'', ''{broken'')]))
     = (Inr (Some ''{broken''), \<lparr>entries = [(''user:42'', ''{broken'')], jobs = []\<rparr>)"
    by (simp add: service_defs memory_defs)
  have h2: "JSON_parse (memory_env app_handlers) ''{broken'' = Inl (SyntaxError ''Unexpected token'')"
    by (simp add: service_defs memory_defs)
  have h3: "queue_getJob (memory_env app_handlers) ''user:42'' \<lparr>entries = [(''user:42'', ''{broken'')], jobs = []\<rparr> = (Inr None, \<lparr>entries = [(''user:42'', ''{broken'')], jobs = []\<rparr>)"
    by (simp add: service_defs memory_defs)
  have h4: "queue_add (memory_env app_handlers) ''cacheFirstJob''
        \<lparr>jobType = ''fetchUser'', params = 42, cacheKey = ''user:42''\<rparr>
        \<lparr>jobId = ''user:42'', removeOnComplete = True, timeout = 5000\<rparr>
        \<lparr>entries = [(''user:42'', ''{broken'')], jobs = []\<rparr>
       = (Inr user42, \<lparr>entries = [(''user:42'', ''{broken'')], jobs = [(''user:42'', user42)]\<rparr>)"
    by (simp add: service_defs memory_defs)
  have h5: "queue_getJob (memory_env app_handlers) ''user:42'' \<lparr>entries = [(''user:42'', ''{broken'')], jobs = [(''user:42'', user42)]\<rparr> = (Inr (Some user42), \<lparr>entries = [(''user:42'', ''{broken'')], jobs = [(''user:42'', user42)]\<rparr>)"
    by (simp add: service_defs memory_defs)
  have a: "fst (cacheFirst (memory_env app_handlers) ''user:42'' 3600 5000 ''fetchUser'' 42 (fresh [(''user:42'', ''{broken'')])) = Inr JTrue"
    using corrupt_entry_is_a_miss
            [OF h1 h2 h3 h4 h5, where redisTTL = 3600, THEN conjunct2, THEN conjunct2,
             THEN conjunct1]
    by (simp add: memory_defs invoke_def logged_def)
  have b: "calls (snd (cacheFirst (memory_env app_handlers) ''user:42'' 3600 5000 ''fetchUser'' 42 (fresh [(''user:42'', ''{broken'')])))
       = [CacheGet ''user:42'',
          LoggerError ''Error parsing cache for key user:42'' (SyntaxError ''Unexpected token''),
          QueueGetJob ''user:42'', QueueAdd ''cacheFirstJob'' user42 user42_opts,
          JobFinished user42, CacheSet ''user:42'' ''true'' 3600]"
    by (simp add: service_defs memory_defs)
  show ?thesis
    by (intro conjI h1 h2 h3 h4 h5 a b)
qed

text \<open>
  Counterexample to C8 as stated: the store holds the empty string, which
  \<^verbatim>\<open>JSON.parse\<close> rejects; the call dispatches a job, but no logger call is among its
  calls.
\<close>

theorem corrupt_entry_counterexample:
  "cache_get (memory_env app_handlers) ''user:42'' (world (fresh [(''user:42'', [])]))
     = (Inr (Some []), \<lparr>entries = [(''user:42'', [])], jobs = []\<rparr>)
   \<and> JSON_parse (memory_env app_handlers) [] = Inl (SyntaxError ''Unexpected end of JSON input'')
   \<and> calls (snd (cacheFirst (memory_env app_handlers) ''user:42'' 3600 5000 ''fetchUser'' 42 (fresh [(''user:42'', [])])))
       = [CacheGet ''user:42'', QueueGetJob ''user:42'',
          QueueAdd ''cacheFirstJob'' user42 user42_opts, JobFinished user42,
          CacheSet ''user:42'' ''true'' 3600]"
  by (simp add: service_defs memory_defs)

subsection \<open>C9: warm refresh\<close>

text \<open>
  Claim C9. \<^verbatim>\<open>warmCacheForKey\<close> first calls \<^verbatim>\<open>del(cacheKey)\<close>. If that throws, the
  call fails with the same error and nothing else is called; otherwise the call is
  \<^verbatim>\<open>cacheFirst\<close> with the same arguments, run after the deletion.
\<close>

theorem warm_refresh_deletes_then_resolves:
  assumes "cache_del env key (world st) = (outcome, w1)"
  shows "warmCacheForKey env key redisTTL jobTTL jt ps st
           = (case outcome of
                Inl err \<Rightarrow> (Inl err, \<lparr>world = w1, calls = calls st @ [CacheDel key]\<rparr>)
              | Inr u \<Rightarrow>
                  cacheFirst env key redisTTL jobTTL jt ps
                    \<lparr>world = w1, calls = calls st @ [CacheDel key]\<rparr>)"
  using assms by (simp add: warmCacheForKey_def invoke_eq split: sum.splits)

text \<open>
  Witness for C9: a warm refresh of a cached key, against the in-memory store and against
  a store that cannot delete.
\<close>

theorem warm_refresh_deletes_then_resolves_witness:
  "cache_del (memory_env app_handlers) ''user:42'' (world (fresh [(''user:42'', ''false'')]))
     = (Inr (), \<lparr>entries = [], jobs = []\<rparr>)
   \<and> warmCacheForKey (memory_env app_handlers) ''user:42'' 3600 5000 ''fetchUser'' 42
        (fresh [(''user:42'', ''false'')])
       = cacheFirst (memory_env app_handlers) ''user:42'' 3600 5000 ''fetchUser'' 42
           \<lparr>world = \<lparr>entries = [], jobs = []\<rparr>, calls = [CacheDel ''user:42'']\<rparr>
   \<and> cache_del (cache_undeletable app_handlers) ''user:42''
        (world (fresh [(''user:42'', ''false'')]))
       = (Inl (Thrown ''ECONNRESET''), \<lparr>entries = [(''user:42'', ''false'')], jobs = []\<rparr>)
   \<and> warmCacheForKey (cache_undeletable app_handlers) ''user:42'' 3600 5000 ''fetchUser'' 42
        (fresh [(''user:42'', ''false'')])
       = (Inl (Thrown ''ECONNRESET''),
          \<lparr>world = \<lparr>entries = [(''user:42'', ''false'')], jobs = []\<rparr>,
             calls = [CacheDel ''user:42'']\<rparr>)"
proof -
  have ok: "cache_del (memory_env app_handlers) ''user:42''
              (world (fresh [(''user:42'', ''false'')]))
              = (Inr (), \<lparr>entries = [], jobs = []\<rparr>)"
    by (simp add: memory_defs)
  have ko: "cache_del (cache_undeletable app_handlers) ''user:42''
              (world (fresh [(''user:42'', ''false'')]))
              = (Inl (Thrown ''ECONNRESET''),
                 \<lparr>entries = [(''user:42'', ''false'')], jobs = []\<rparr>)"
    by (simp add: cache_undeletable_def memory_defs)
  from warm_refresh_deletes_then_resolves [OF ok, of 3600 5000 "''fetchUser''" 42]
       warm_refresh_deletes_then_resolves [OF ko, of 3600 5000 "''fetchUser''" 42]
       ok ko
  show ?thesis
    by (simp add: fresh_def)
qed

subsection \<open>C10: the empty string\<close>

text \<open>
  Claim C10. Whenever \<^verbatim>\<open>get\<close> returns the empty string, \<^verbatim>\<open>cacheFirst\<close> behaves
  exactly as the same call with \<^verbatim>\<open>get\<close> answering \<^verbatim>\<open>null\<close>: the value is falsy, so
  the call goes straight from \<^verbatim>\<open>get\<close> to the job lookup; if there is no job it adds one
  with the call's payload and the cache key as job id, looking again if \<^verbatim>\<open>add\<close>
  throws; it awaits the job it obtained and returns the job's result, or fails with the
  "timed out" exception.
\<close>

theorem empty_string_is_a_miss:
  assumes "cache_get env key (world st) = (Inr (Some []), w1)"
      and "queue_getJob env key w1 = (found, w2)"
      and "queue_add env ''cacheFirstJob'' \<lparr>jobType = jt, params = ps, cacheKey = key\<rparr>
             \<lparr>jobId = key, removeOnComplete = True, timeout = jobTTL\<rparr> w2 = (added, w3)"
      and "queue_getJob env key w3 = (again, w4)"
  shows "cacheFirst env key redisTTL jobTTL jt ps st
           = cacheFirst (env\<lparr>cache_get := (\<lambda>k w. (Inr None, w1))\<rparr>) key redisTTL jobTTL jt ps st
         \<and> fst (cacheFirst env key redisTTL jobTTL jt ps st)
             = (case found of
                  Inl err \<Rightarrow> Inl err
                | Inr (Some bullJob) \<Rightarrow>
                    (case fst (job_finished env bullJob w2) of
                       Inl err \<Rightarrow>
                         Inl (InternalServerErrorException
                                (''Job timed out after '' @ number_text env jobTTL @ '' ms''))
                     | Inr result \<Rightarrow> Inr result)
                | Inr None \<Rightarrow>
                    (case added of
                       Inr bullJob \<Rightarrow>
                         (case fst (job_finished env bullJob w3) of
                            Inl err \<Rightarrow>
                              Inl (InternalServerErrorException
                                     (''Job timed out after '' @ number_text env jobTTL @ '' ms''))
                          | Inr result \<Rightarrow> Inr result)
                     | Inl error \<Rightarrow>
                         (case again of
                            Inl err \<Rightarrow> Inl err
                          | Inr (Some bullJob) \<Rightarrow>
                              (case fst (job_finished env bullJob w4) of
                                 Inl err \<Rightarrow>
                                   Inl (InternalServerErrorException
                                          (''Job timed out after '' @ number_text env jobTTL @ '' ms''))
                               | Inr result \<Rightarrow> Inr result)
                          | Inr None \<Rightarrow>
                              Inl (InternalServerErrorException ''Failed to schedule cache job''))))
         \<and> (\<exists>rest. calls (snd (cacheFirst env key redisTTL jobTTL jt ps st))
                     = calls st @ CacheGet key # QueueGetJob key #
                         (case found of
                            Inl err \<Rightarrow> []
                          | Inr (Some bullJob) \<Rightarrow> JobFinished bullJob # rest
                          | Inr None \<Rightarrow>
                              QueueAdd ''cacheFirstJob'' \<lparr>jobType = jt, params = ps, cacheKey = key\<rparr>
                                \<lparr>jobId = key, removeOnComplete = True, timeout = jobTTL\<rparr> #
                              (case added of
                                 Inr bullJob \<Rightarrow> JobFinished bullJob # rest
                               | Inl error \<Rightarrow>
                                   QueueGetJob key #
                                   (case again of
                                      Inl err \<Rightarrow> []
                                    | Inr (Some bullJob) \<Rightarrow> JobFinished bullJob # rest
                                    | Inr None \<Rightarrow> []))))"
proof -
  let ?null = "env\<lparr>cache_get := (\<lambda>k w. (Inr None, w1))\<rparr>"
  let ?plain = "\<lparr>world = w1, calls = calls st @ [CacheGet key]\<rparr>"
  have run: "cacheFirst env key redisTTL jobTTL jt ps st = on_miss env key redisTTL jobTTL jt ps ?plain"
    using assms(1) by (simp add: cacheFirst_def check_cache_def invoke_def)
  have "check_cache ?null key st = (Inr None, ?plain)"
    by (rule check_cache_falsy [where cached = None]) simp_all
  then have miss: "cacheFirst ?null key redisTTL jobTTL jt ps st
                     = on_miss env key redisTTL jobTTL jt ps ?plain"
    by (simp add: cacheFirst_def on_miss_ignores_cache_get)
  have direct: "fst (cacheFirst env key redisTTL jobTTL jt ps st)
             = (case found of
                  Inl err \<Rightarrow> Inl err
                | Inr (Some bullJob) \<Rightarrow>
                    (case fst (job_finished env bullJob w2) of
                       Inl err \<Rightarrow>
                         Inl (InternalServerErrorException
                                (''Job timed out after '' @ number_text env jobTTL @ '' ms''))
                     | Inr result \<Rightarrow> Inr result)
                | Inr None \<Rightarrow>
                    (case added of
                       Inr bullJob \<Rightarrow>
                         (case fst (job_finished env bullJob w3) of
                            Inl err \<Rightarrow>
                              Inl (InternalServerErrorException
                                     (''Job timed out after '' @ number_text env jobTTL @ '' ms''))
                          | Inr result \<Rightarrow> Inr result)
                     | Inl error \<Rightarrow>
                         (case again of
                            Inl err \<Rightarrow> Inl err
                          | Inr (Some bullJob) \<Rightarrow>
                              (case fst (job_finished env bullJob w4) of
                                 Inl err \<Rightarrow>
                                   Inl (InternalServerErrorException
                                          (''Job timed out after '' @ number_text env jobTTL @ '' ms''))
                               | Inr result \<Rightarrow> Inr result)
                          | Inr None \<Rightarrow>
                              Inl (InternalServerErrorException ''Failed to schedule cache job''))))
         \<and> (\<exists>rest. calls (snd (cacheFirst env key redisTTL jobTTL jt ps st))
                     = calls st @ CacheGet key # QueueGetJob key #
                         (case found of
                            Inl err \<Rightarrow> []
                          | Inr (Some bullJob) \<Rightarrow> JobFinished bullJob # rest
                          | Inr None \<Rightarrow>
                              QueueAdd ''cacheFirstJob'' \<lparr>jobType = jt, params = ps, cacheKey = key\<rparr>
                                \<lparr>jobId = key, removeOnComplete = True, timeout = jobTTL\<rparr> #
                              (case added of
                                 Inr bullJob \<Rightarrow> JobFinished bullJob # rest
                               | Inl error \<Rightarrow>
                                   QueueGetJob key #
                                   (case again of
                                      Inl err \<Rightarrow> []
                                    | Inr (Some bullJob) \<Rightarrow> JobFinished bullJob # rest
                                    | Inr None \<Rightarrow> []))))"
  proof (cases found)
    case (Inl err)
    with assms show ?thesis
      by (simp add: run on_miss_def obtain_job_def wait_and_cache_def invoke_def logged_def Let_def
               split: prod.splits sum.splits)
  next
    case first: (Inr looked)
    show ?thesis
    proof (cases looked)
      case (Some bullJob)
      with first assms show ?thesis
        by (simp add: run on_miss_def obtain_job_def wait_and_cache_def invoke_def logged_def Let_def
                 split: prod.splits sum.splits)
    next
      case none: None
      show ?thesis
      proof (cases added)
        case (Inr bullJob)
        with first none assms show ?thesis
          by (simp add: run on_miss_def obtain_job_def wait_and_cache_def invoke_def logged_def Let_def
                   split: prod.splits sum.splits)
      next
        case failed: (Inl error)
        show ?thesis
        proof (cases again)
          case (Inl err)
          with first none failed assms show ?thesis
            by (simp add: run on_miss_def obtain_job_def wait_and_cache_def invoke_def logged_def Let_def
                     split: prod.splits sum.splits)
        next
          case second: (Inr relooked)
          show ?thesis
          proof (cases relooked)
            case None
            with first none failed second assms show ?thesis
              by (simp add: run on_miss_def obtain_job_def wait_and_cache_def invoke_def logged_def Let_def
                       split: prod.splits sum.splits)
          next
            case (Some bullJob)
            with first none failed second assms show ?thesis
              by (simp add: run on_miss_def obtain_job_def wait_and_cache_def invoke_def logged_def Let_def
                       split: prod.splits sum.splits)
          qed
        qed
      qed
    qed
  qed
  have rel: "cacheFirst env key redisTTL jobTTL jt ps st
              = cacheFirst (env\<lparr>cache_get := (\<lambda>k w. (Inr None, w1))\<rparr>) key redisTTL jobTTL jt ps st"
    using run miss by simp
  show ?thesis
    by (intro conjI rel direct [THEN conjunct1] direct [THEN conjunct2])
qed

text \<open>
  Witness for C10: the store holds the empty string under \<^verbatim>\<open>user:42\<close>; a job is added
  and awaited, and its result is returned and cached in front of the empty entry.
\<close>

theorem empty_string_is_a_miss_witness:
  "cache_get (memory_env app_handlers) ''user:42'' (world (fresh [(''user:42'', [])]))
     = (Inr (Some []), \<lparr>entries = [(''user:42'', [])], jobs = []\<rparr>)
   \<and> queue_getJob (memory_env app_handlers) ''user:42'' \<lparr>entries = [(''user:42'', [])], jobs = []\<rparr> = (Inr None, \<lparr>entries = [(''user:42'', [])], jobs = []\<rparr>)
   \<and> queue_add (memory_env app_handlers) ''cacheFirstJob''
        \<lparr>jobType = ''fetchUser'', params = 42, cacheKey = ''user:42''\<rparr>
        \<lparr>jobId = ''user:42'', removeOnComplete = True, timeout = 5000\<rparr>
        \<lparr>entries = [(''user:42'', [])], jobs = []\<rparr>
       = (Inr user42, \<lparr>entries = [(''user:42'', [])], jobs = [(''user:42'', user42)]\<rparr>)
   \<and> queue_getJob (memory_env app_handlers) ''user:42'' \<lparr>entries = [(''user:42'', [])], jobs = [(''user:42'', user42)]\<rparr> = (Inr (Some user42), \<lparr>entries = [(''user:42'', [])], jobs = [(''user:42'', user42)]\<rparr>)
   \<and> fst (cacheFirst (memory_env app_handlers) ''user:42'' 3600 5000 ''fetchUser'' 42 (fresh [(''user:42'', [])])) = Inr JTrue
   \<and> calls (snd (cacheFirst (memory_env app_handlers) ''user:42'' 3600 5000 ''fetchUser'' 42 (fresh [(''user:42'', [])])))
       = [CacheGet ''user:42'', QueueGetJob ''user:42'',
          QueueAdd ''cacheFirstJob'' user42 user42_opts, JobFinished user42,
          CacheSet ''user:42'' ''true'' 3600]
   \<and> world (snd (cacheFirst (memory_env app_handlers) ''user:42'' 3600 5000 ''fetchUser'' 42 (fresh [(''user:42'', [])])))
       = \<lparr>entries = [(''user:42'', ''true''), (''user:42'', [])], jobs = []\<rparr>"
proof -
  have h1: "cache_get (memory_env app_handlers) ''user:42'' (world (fresh [(''user:42'', [])]))
     = (Inr (Some []), \<lparr>entries = [(''user:42'', [])], jobs = []\<rparr>)"
    by (simp add: service_defs memory_defs)
  have h2: "queue_getJob (memory_env app_handlers) ''user:42'' \<lparr>entries = [(''user:42'', [])], jobs = []\<rparr> = (Inr None, \<lparr>entries = [(''user:42'', [])], jobs = []\<rparr>)"
    by (simp add: service_defs memory_defs)
  have h3: "queue_add (memory_env app_handlers) ''cacheFirstJob''
        \<lparr>jobType = ''fetchUser'', params = 42, cacheKey = ''user:42''\<rparr>
        \<lparr>jobId = ''user:42'', removeOnComplete = True, timeout = 5000\<rparr>
        \<lparr>entries = [(''user:42'', [])], jobs = []\<rparr>
       = (Inr user42, \<lparr>entries = [(''user:42'', [])], jobs = [(''user:42'', user42)]\<rparr>)"
    by (simp add: service_defs memory_defs)
  have h4: "queue_getJob (memory_env app_handlers) ''user:42'' \<lparr>entries = [(''user:42'', [])], jobs = [(''user:42'', user42)]\<rparr> = (Inr (Some user42), \<lparr>entries = [(''user:42'', [])], jobs = [(''user:42'', user42)]\<rparr>)"
    by (simp add: service_defs memory_defs)
  have a: "fst (cacheFirst (memory_env app_handlers) ''user:42'' 3600 5000 ''fetchUser'' 42 (fresh [(''user:42'', [])])) = Inr JTrue"
    using empty_string_is_a_miss
            [OF h1 h2 h3 h4, where redisTTL = 3600, THEN conjunct2, THEN conjunct1]
    by (simp add: memory_defs invoke_def logged_def)
  have b: "calls (snd (cacheFirst (memory_env app_handlers) ''user:42'' 3600 5000 ''fetchUser'' 42 (fresh [(''user:42'', [])])))
       = [CacheGet ''user:42'', QueueGetJob ''user:42'',
          QueueAdd ''cacheFirstJob'' user42 user42_opts, JobFinished user42,
          CacheSet ''user:42'' ''true'' 3600]"
    by (simp add: service_defs memory_defs)
  have c: "world (snd (cacheFirst (memory_env app_handlers) ''user:42'' 3600 5000 ''fetchUser'' 42 (fresh [(''user:42'', [])])))
       = \<lparr>entries = [(''user:42'', ''true''), (''user:42'', [])], jobs = []\<rparr>"
    by (simp add: service_defs memory_defs)
  show ?thesis
    by (intro conjI h1 h2 h3 h4 a b c)
qed

end
